theory Spec2Isabelle
  imports Main "HOL-Library.Word"
begin

unbundle bit_operations_syntax

section \<open>FlexCAN message-buffer driver (can.h, can.c)\<close>

text \<open>
  A shallow embedding of the S32K144 FlexCAN driver. Every C function of can.c that the
  verified properties need is a HOL function of the same name. The driver's static tables
  and the memory-mapped registers form one explicit state that each function takes and
  returns. Each access to a peripheral register is appended to a bus log, so that the order
  of register reads and writes of a call can be stated. \<open>uint32_t\<close> values are
  \<open>32 word\<close>, \<open>uint8_t\<close> message fields are \<open>8 word\<close>; the \<open>uint8_t\<close> instance and
  mailbox indices are \<open>nat\<close> (they are only compared, scaled by 4 and used as shift counts).
  A pointer parameter is an option, \<open>NULL\<close> being \<open>None\<close>. The parameters \<open>instance\<close>,
  \<open>mbIndex\<close>, \<open>message\<close> and \<open>filter\<close> of the source are written \<open>inst\<close>, \<open>mbIdx\<close>, \<open>msg\<close>
  and \<open>flt\<close>.
\<close>

subsection \<open>Types of can.h\<close>

datatype status_t =
    STATUS_SUCCESS
  | STATUS_ERROR
  | STATUS_BUSY
  | STATUS_TIMEOUT
  | STATUS_INVALID_PARAM
  | STATUS_NOT_INITIALIZED

datatype can_id_type_t = CAN_ID_STD | CAN_ID_EXT

datatype can_frame_type_t = CAN_FRAME_DATA | CAN_FRAME_REMOTE

datatype can_mode_t = CAN_MODE_NORMAL | CAN_MODE_LOOPBACK | CAN_MODE_LISTEN_ONLY

text \<open>
  Modelled from the spec: \<open>can_clk_src_t\<close> is declared in can_reg.h, which is not among
  the sources; its enumerators are the four names that can.c and can.h use.
\<close>

datatype can_clk_src_t =
    CAN_CLK_SRC_SOSCDIV2
  | CAN_CLK_SRC_BUSCLOCK
  | CAN_CLK_SRC_FIRCDIV2
  | CAN_CLK_SRC_SPLLDIV2

text \<open>\<open>can_message_t\<close>; the field \<open>id\<close> is \<open>msg_id\<close> here, \<open>data\<close> is \<open>msg_data\<close>.\<close>

record can_message_t =
  msg_id :: "32 word"
  idType :: can_id_type_t
  frameType :: can_frame_type_t
  dataLength :: "8 word"
  msg_data :: "8 word list"

record can_timing_config_t =
  propSeg :: "8 word"
  phaseSeg1 :: "8 word"
  phaseSeg2 :: "8 word"
  rJumpWidth :: "8 word"
  preDiv :: "8 word"

record can_config_t =
  cfg_instance :: nat
  clockSource :: can_clk_src_t
  baudRate :: "32 word"
  mode :: can_mode_t
  enableSelfReception :: bool
  useRxFifo :: bool

record can_rx_filter_t =
  filter_id :: "32 word"
  filter_mask :: "32 word"
  filter_idType :: can_id_type_t

datatype can_error_state_t = CAN_ERROR_ACTIVE | CAN_ERROR_PASSIVE | CAN_ERROR_BUS_OFF

datatype can_event_t =
    CAN_EVENT_NONE
  | CAN_EVENT_TX_COMPLETE
  | CAN_EVENT_RX_COMPLETE
  | CAN_EVENT_ERROR
  | CAN_EVENT_BUS_OFF
  | CAN_EVENT_OVERRUN

text \<open>\<open>can_event_data_t\<close>; the pointer \<open>message\<close> is an option, \<open>NULL\<close> is \<open>None\<close>.\<close>

record can_event_data_t =
  mbIndex :: nat
  message :: "can_message_t option"
  errorFlags :: "32 word"

text \<open>A callback is a function pointer: only its identity is modelled.\<close>

type_synonym can_callback_t = nat

subsection \<open>Constants of can.h and can.c\<close>

definition CAN_CS_CODE_SHIFT :: nat where "CAN_CS_CODE_SHIFT = 24"
definition CAN_CS_CODE_MASK :: "32 word" where "CAN_CS_CODE_MASK = 0x0F000000"
definition CAN_CS_CODE_TX_INACTIVE :: "32 word" where "CAN_CS_CODE_TX_INACTIVE = 0x08"
definition CAN_CS_CODE_TX_ABORT :: "32 word" where "CAN_CS_CODE_TX_ABORT = 0x09"
definition CAN_CS_CODE_TX_DATA :: "32 word" where "CAN_CS_CODE_TX_DATA = 0x0C"
definition CAN_CS_CODE_RX_INACTIVE :: "32 word" where "CAN_CS_CODE_RX_INACTIVE = 0x00"
definition CAN_CS_CODE_RX_EMPTY :: "32 word" where "CAN_CS_CODE_RX_EMPTY = 0x04"
definition CAN_CS_CODE_RX_FULL :: "32 word" where "CAN_CS_CODE_RX_FULL = 0x02"
definition CAN_ID_STD_SHIFT :: nat where "CAN_ID_STD_SHIFT = 18"
definition CAN_ID_STD_MASK :: "32 word" where "CAN_ID_STD_MASK = 0x1FFC0000"
definition CAN_ID_EXT_SHIFT :: nat where "CAN_ID_EXT_SHIFT = 0"
definition CAN_ID_EXT_MASK :: "32 word" where "CAN_ID_EXT_MASK = 0x1FFFFFFF"
definition CAN_MB_COUNT :: nat where "CAN_MB_COUNT = 32"
definition CAN_INSTANCE_COUNT :: nat where "CAN_INSTANCE_COUNT = 3"
definition CAN_MAX_DATA_LENGTH :: "8 word" where "CAN_MAX_DATA_LENGTH = 8"
definition CAN_TX_MB_START :: nat where "CAN_TX_MB_START = 8"
definition CAN_TX_MB_COUNT :: nat where "CAN_TX_MB_COUNT = 8"
definition CAN_RX_MB_START :: nat where "CAN_RX_MB_START = 16"
definition MSG_BUF_SIZE :: nat where "MSG_BUF_SIZE = 4"
definition CAN_FREEZE_TIMEOUT :: nat where "CAN_FREEZE_TIMEOUT = 10000"
definition CAN_DEFAULT_CLK_FREQ :: "32 word" where "CAN_DEFAULT_CLK_FREQ = 40000000"

text \<open>
  Modelled from the spec: the register header can_reg.h is not among the sources. The
  control-status masks \<open>CAN_WMBn_CS_*\<close> take the values that can.h keeps in its
  commented-out \<open>CAN_CS_*\<close> definitions (IDE 0x00200000, RTR 0x00100000, DLC 0x000F0000
  at shift 16) and in \<open>CAN_CS_SRR_MASK\<close>; the \<open>MCR\<close>, \<open>CTRL1\<close> and \<open>ESR1\<close> masks and the
  three base addresses are those of the S32K144 FlexCAN register map.
\<close>

definition CAN_WMBn_CS_DLC_SHIFT :: nat where "CAN_WMBn_CS_DLC_SHIFT = 16"
definition CAN_WMBn_CS_DLC_MASK :: "32 word" where "CAN_WMBn_CS_DLC_MASK = 0x000F0000"
definition CAN_WMBn_CS_RTR_MASK :: "32 word" where "CAN_WMBn_CS_RTR_MASK = 0x00100000"
definition CAN_WMBn_CS_IDE_MASK :: "32 word" where "CAN_WMBn_CS_IDE_MASK = 0x00200000"
definition CAN_WMBn_CS_SRR_MASK :: "32 word" where "CAN_WMBn_CS_SRR_MASK = 0x00400000"
definition CAN_MCR_MDIS_MASK :: "32 word" where "CAN_MCR_MDIS_MASK = 0x80000000"
definition CAN_MCR_FRZ_MASK :: "32 word" where "CAN_MCR_FRZ_MASK = 0x40000000"
definition CAN_MCR_RFEN_MASK :: "32 word" where "CAN_MCR_RFEN_MASK = 0x20000000"
definition CAN_MCR_HALT_MASK :: "32 word" where "CAN_MCR_HALT_MASK = 0x10000000"
definition CAN_MCR_NOTRDY_MASK :: "32 word" where "CAN_MCR_NOTRDY_MASK = 0x08000000"
definition CAN_MCR_SOFTRST_MASK :: "32 word" where "CAN_MCR_SOFTRST_MASK = 0x02000000"
definition CAN_MCR_FRZACK_MASK :: "32 word" where "CAN_MCR_FRZACK_MASK = 0x01000000"
definition CAN_MCR_SRXDIS_MASK :: "32 word" where "CAN_MCR_SRXDIS_MASK = 0x00020000"
definition CAN_MCR_MAXMB_MASK :: "32 word" where "CAN_MCR_MAXMB_MASK = 0x0000007F"
definition CAN_MCR_MAXMB_SHIFT :: nat where "CAN_MCR_MAXMB_SHIFT = 0"
definition CAN_CTRL1_PRESDIV_SHIFT :: nat where "CAN_CTRL1_PRESDIV_SHIFT = 24"
definition CAN_CTRL1_RJW_SHIFT :: nat where "CAN_CTRL1_RJW_SHIFT = 22"
definition CAN_CTRL1_PSEG1_SHIFT :: nat where "CAN_CTRL1_PSEG1_SHIFT = 19"
definition CAN_CTRL1_PSEG2_SHIFT :: nat where "CAN_CTRL1_PSEG2_SHIFT = 16"
definition CAN_CTRL1_PROPSEG_SHIFT :: nat where "CAN_CTRL1_PROPSEG_SHIFT = 0"
definition CAN_CTRL1_SMP_SHIFT :: nat where "CAN_CTRL1_SMP_SHIFT = 7"
definition CAN_CTRL1_CLKSRC_MASK :: "32 word" where "CAN_CTRL1_CLKSRC_MASK = 0x00002000"
definition CAN_CTRL1_LPB_MASK :: "32 word" where "CAN_CTRL1_LPB_MASK = 0x00001000"
definition CAN_CTRL1_LOM_MASK :: "32 word" where "CAN_CTRL1_LOM_MASK = 0x00000008"
definition CAN_ESR1_FLTCONF_MASK :: "32 word" where "CAN_ESR1_FLTCONF_MASK = 0x00000030"
definition CAN_ESR1_FLTCONF_SHIFT :: nat where "CAN_ESR1_FLTCONF_SHIFT = 4"
definition CAN0 :: "32 word" where "CAN0 = 0x40024000"
definition CAN1 :: "32 word" where "CAN1 = 0x40025000"
definition CAN2 :: "32 word" where "CAN2 = 0x4002B000"

subsection \<open>Registers and driver state\<close>

text \<open>
  The members of \<open>CAN_Type\<close> that the driver touches. \<open>RAMn i\<close> is word \<open>i\<close> of the
  mailbox RAM, \<open>RXIMR i\<close> the individual mask of mailbox \<open>i\<close>.
\<close>

datatype can_reg =
    MCR | CTRL1 | TIMER | RXMGMASK | ECR | ESR1 | IMASK1 | IFLAG1
  | RAMn nat
  | RXIMR nat

datatype bus_access = Read can_reg | Write can_reg "32 word"

text \<open>
  The state: the three static tables of can.c (\<open>s_canInitialized\<close>, \<open>s_canCallbacks\<close>), the
  register contents of every peripheral by base address, the log of bus accesses, and the
  log of callback invocations (callback, instance pointer, event, event data).
\<close>

record can_state =
  s_canInitialized :: "nat \<Rightarrow> bool"
  s_canCallbacks :: "nat \<Rightarrow> can_callback_t option"
  regs :: "32 word \<Rightarrow> can_reg \<Rightarrow> 32 word"
  bus :: "(32 word \<times> bus_access) list"
  calls :: "(can_callback_t \<times> 32 word \<times> can_event_t \<times> can_event_data_t) list"

text \<open>\<open>s_canBases[CAN_INSTANCE_COUNT] = {CAN0, CAN1, CAN2}\<close>; read only below the count.\<close>

definition s_canBases :: "nat \<Rightarrow> 32 word" where
  "s_canBases i = (if i = 0 then CAN0 else if i = 1 then CAN1 else CAN2)"

text \<open>The state at reset of the program: nothing initialised, no callback.\<close>

definition can_state_reset :: "(32 word \<Rightarrow> can_reg \<Rightarrow> 32 word) \<Rightarrow> can_state" where
  "can_state_reset r =
     \<lparr>s_canInitialized = (\<lambda>_. False), s_canCallbacks = (\<lambda>_. None), regs = r,
      bus = [], calls = []\<rparr>"

text \<open>A volatile read of a register: the value, and the access logged.\<close>

definition reg_read :: "32 word \<Rightarrow> can_reg \<Rightarrow> can_state \<Rightarrow> 32 word \<times> can_state" where
  "reg_read base r s = (regs s base r, s\<lparr>bus := bus s @ [(base, Read r)]\<rparr>)"

text \<open>
  What a register holds after the value \<open>v\<close> is written to it. \<open>IFLAG1\<close> is
  write-1-to-clear (the comment in \<open>CAN_InitMessageBuffers\<close>: "This reg is w1c"): a
  written 1 clears the flag, a written 0 leaves it. Every other register stores \<open>v\<close>.
\<close>

definition reg_store :: "can_reg \<Rightarrow> 32 word \<Rightarrow> 32 word \<Rightarrow> 32 word" where
  "reg_store r old v = (if r = IFLAG1 then old AND NOT v else v)"

definition reg_write :: "32 word \<Rightarrow> can_reg \<Rightarrow> 32 word \<Rightarrow> can_state \<Rightarrow> can_state" where
  "reg_write base r v s =
     s\<lparr>regs := (regs s)(base := (regs s base)(r := reg_store r (regs s base r) v)),
       bus := bus s @ [(base, Write r v)]\<rparr>"

subsection \<open>Transmit path: \<open>CAN_Send\<close>\<close>

text \<open>The two data words that \<open>CAN_Send\<close> packs from \<open>message->data[0..7]\<close>.\<close>

definition CAN_Send_data0 :: "can_message_t \<Rightarrow> 32 word" where
  "CAN_Send_data0 m =
     push_bit 24 (ucast (msg_data m ! 0)) OR push_bit 16 (ucast (msg_data m ! 1)) OR
     push_bit 8 (ucast (msg_data m ! 2)) OR ucast (msg_data m ! 3)"

definition CAN_Send_data1 :: "can_message_t \<Rightarrow> 32 word" where
  "CAN_Send_data1 m =
     push_bit 24 (ucast (msg_data m ! 4)) OR push_bit 16 (ucast (msg_data m ! 5)) OR
     push_bit 8 (ucast (msg_data m ! 6)) OR ucast (msg_data m ! 7)"

text \<open>The ID word.\<close>

definition CAN_Send_id :: "can_message_t \<Rightarrow> 32 word" where
  "CAN_Send_id m =
     (if idType m = CAN_ID_STD then push_bit CAN_ID_STD_SHIFT (msg_id m) AND CAN_ID_STD_MASK
      else push_bit CAN_ID_EXT_SHIFT (msg_id m) AND CAN_ID_EXT_MASK)"

text \<open>The control-status word, built up by the three \<open>if\<close> statements in their order.\<close>

definition CAN_Send_cs :: "can_message_t \<Rightarrow> 32 word" where
  "CAN_Send_cs m =
     (let cs = push_bit CAN_CS_CODE_SHIFT CAN_CS_CODE_TX_DATA OR
               push_bit CAN_WMBn_CS_DLC_SHIFT (ucast (dataLength m));
          cs = (if idType m = CAN_ID_EXT then cs OR CAN_WMBn_CS_IDE_MASK else cs);
          cs = (if idType m = CAN_ID_STD then cs OR CAN_WMBn_CS_SRR_MASK else cs);
          cs = (if frameType m = CAN_FRAME_REMOTE then cs OR CAN_WMBn_CS_RTR_MASK else cs)
      in cs)"

definition CAN_Send :: "nat \<Rightarrow> nat \<Rightarrow> can_message_t option \<Rightarrow> can_state \<Rightarrow> status_t \<times> can_state" where
  "CAN_Send inst mbIdx msg s =
     (if inst \<ge> CAN_INSTANCE_COUNT \<or> msg = None then (STATUS_INVALID_PARAM, s)
      else if \<not> s_canInitialized s inst then (STATUS_NOT_INITIALIZED, s)
      else if mbIdx < CAN_TX_MB_START \<or> mbIdx \<ge> CAN_TX_MB_START + CAN_TX_MB_COUNT
        then (STATUS_INVALID_PARAM, s)
      else if dataLength (the msg) > CAN_MAX_DATA_LENGTH then (STATUS_INVALID_PARAM, s)
      else
        let base = s_canBases inst;
            mbOffset = mbIdx * MSG_BUF_SIZE;
            s = reg_write base IFLAG1 (push_bit mbIdx 1) s;
            s = reg_write base (RAMn (mbOffset + 2)) (CAN_Send_data0 (the msg)) s;
            s = reg_write base (RAMn (mbOffset + 3)) (CAN_Send_data1 (the msg)) s;
            s = reg_write base (RAMn (mbOffset + 1)) (CAN_Send_id (the msg)) s;
            s = reg_write base (RAMn (mbOffset + 0)) (CAN_Send_cs (the msg)) s
        in (STATUS_SUCCESS, s))"

text \<open>
  Integer operations whose result C leaves undefined are outcomes of their own: a function
  that can reach one returns \<open>Inl\<close> of the fault.
\<close>

datatype fault = DIVIDE_BY_ZERO | SHIFT_OUT_OF_RANGE

text \<open>
  The peripheral runs beside the program: between two polls of a busy-wait loop it may
  change its registers. Each function with such a loop takes the peripheral's step
  \<open>hw\<close> as a parameter, applied before every poll; \<open>hw = id\<close> is a peripheral that never
  answers.
\<close>

type_synonym can_hw = "(32 word \<Rightarrow> can_reg \<Rightarrow> 32 word) \<Rightarrow> (32 word \<Rightarrow> can_reg \<Rightarrow> 32 word)"

definition hw_step :: "can_hw \<Rightarrow> can_state \<Rightarrow> can_state" where
  "hw_step hw s = s\<lparr>regs := hw (regs s)\<rparr>"

text \<open>
  The loop of \<open>CAN_SendBlocking\<close>, by the number of iterations left
  (\<open>timeoutMs * 1000U - timeoutCount\<close>).
\<close>

fun CAN_SendBlocking_wait :: "can_hw \<Rightarrow> 32 word \<Rightarrow> 32 word \<Rightarrow> nat \<Rightarrow> can_state \<Rightarrow> status_t \<times> can_state" where
  "CAN_SendBlocking_wait hw base mbMask 0 s = (STATUS_TIMEOUT, s)"
| "CAN_SendBlocking_wait hw base mbMask (Suc n) s =
     (let (iflag, s) = reg_read base IFLAG1 (hw_step hw s)
      in if iflag AND mbMask \<noteq> 0 then (STATUS_SUCCESS, reg_write base IFLAG1 mbMask s)
         else CAN_SendBlocking_wait hw base mbMask n s)"

definition CAN_SendBlocking :: "can_hw \<Rightarrow> nat \<Rightarrow> nat \<Rightarrow> can_message_t option \<Rightarrow> 32 word \<Rightarrow> can_state \<Rightarrow> status_t \<times> can_state" where
  "CAN_SendBlocking hw inst mbIdx msg timeoutMs s =
     (let (status, s) = CAN_Send inst mbIdx msg s
      in if status \<noteq> STATUS_SUCCESS then (status, s)
         else CAN_SendBlocking_wait hw (s_canBases inst) (push_bit mbIdx 1)
                (unat (timeoutMs * 1000)) s)"

subsection \<open>Receive path\<close>

text \<open>
  The decoding of \<open>CAN_Receive\<close>: the assignments to \<open>message->idType\<close>, \<open>id\<close>,
  \<open>frameType\<close>, \<open>dataLength\<close> and \<open>data[0..7]\<close> from the words read.
\<close>

definition CAN_Receive_unpack :: "32 word \<Rightarrow> 32 word \<Rightarrow> 32 word \<Rightarrow> 32 word \<Rightarrow> can_message_t \<Rightarrow> can_message_t" where
  "CAN_Receive_unpack cs idw data0 data1 m =
     (let m = (if cs AND CAN_WMBn_CS_IDE_MASK \<noteq> 0
               then m\<lparr>idType := CAN_ID_EXT,
                      msg_id := drop_bit CAN_ID_EXT_SHIFT (idw AND CAN_ID_EXT_MASK)\<rparr>
               else m\<lparr>idType := CAN_ID_STD,
                      msg_id := drop_bit CAN_ID_STD_SHIFT (idw AND CAN_ID_STD_MASK)\<rparr>);
          m = m\<lparr>frameType := (if cs AND CAN_WMBn_CS_RTR_MASK \<noteq> 0 then CAN_FRAME_REMOTE
                                else CAN_FRAME_DATA)\<rparr>;
          m = m\<lparr>dataLength := ucast (drop_bit CAN_WMBn_CS_DLC_SHIFT (cs AND CAN_WMBn_CS_DLC_MASK))\<rparr>
      in m\<lparr>msg_data :=
             [ucast (drop_bit 24 data0 AND 0xFF), ucast (drop_bit 16 data0 AND 0xFF),
              ucast (drop_bit 8 data0 AND 0xFF), ucast (data0 AND 0xFF),
              ucast (drop_bit 24 data1 AND 0xFF), ucast (drop_bit 16 data1 AND 0xFF),
              ucast (drop_bit 8 data1 AND 0xFF), ucast (data1 AND 0xFF)]\<rparr>)"

text \<open>
  \<open>CAN_Receive\<close>. The out-parameter \<open>message\<close> comes in with the caller's contents and is
  returned with the contents after the call.
\<close>

definition CAN_Receive :: "nat \<Rightarrow> nat \<Rightarrow> can_message_t option \<Rightarrow> can_state \<Rightarrow> status_t \<times> can_message_t option \<times> can_state" where
  "CAN_Receive inst mbIdx msg s =
     (if inst \<ge> CAN_INSTANCE_COUNT \<or> msg = None then (STATUS_INVALID_PARAM, msg, s)
      else if \<not> s_canInitialized s inst then (STATUS_NOT_INITIALIZED, msg, s)
      else if mbIdx < CAN_RX_MB_START \<or> mbIdx \<ge> CAN_MB_COUNT then (STATUS_INVALID_PARAM, msg, s)
      else
        let base = s_canBases inst;
            mbMask = push_bit mbIdx 1;
            mbOffset = mbIdx * MSG_BUF_SIZE;
            (iflag, s) = reg_read base IFLAG1 s
        in if iflag AND mbMask = 0 then (STATUS_ERROR, msg, s)
           else
             let (cs, s) = reg_read base (RAMn (mbOffset + 0)) s;
                 (idw, s) = reg_read base (RAMn (mbOffset + 1)) s;
                 (data0, s) = reg_read base (RAMn (mbOffset + 2)) s;
                 (data1, s) = reg_read base (RAMn (mbOffset + 3)) s;
                 m = CAN_Receive_unpack cs idw data0 data1 (the msg);
                 (dummy, s) = reg_read base TIMER s;
                 s = reg_write base IFLAG1 mbMask s;
                 (dummy, s) = reg_read base TIMER s;
                 s = reg_write base IFLAG1 mbMask s
             in (STATUS_SUCCESS, Some m, s))"

text \<open>The loop of \<open>CAN_ReceiveBlocking\<close>, by the number of iterations left.\<close>

fun CAN_ReceiveBlocking_wait :: "can_hw \<Rightarrow> nat \<Rightarrow> nat \<Rightarrow> can_message_t option \<Rightarrow> nat \<Rightarrow> can_state \<Rightarrow> status_t \<times> can_message_t option \<times> can_state" where
  "CAN_ReceiveBlocking_wait hw inst mbIdx msg 0 s = (STATUS_TIMEOUT, msg, s)"
| "CAN_ReceiveBlocking_wait hw inst mbIdx msg (Suc n) s =
     (let (iflag, s) = reg_read (s_canBases inst) IFLAG1 (hw_step hw s)
      in if iflag AND push_bit mbIdx 1 \<noteq> 0 then CAN_Receive inst mbIdx msg s
         else CAN_ReceiveBlocking_wait hw inst mbIdx msg n s)"

text \<open>
  \<open>CAN_ReceiveBlocking\<close> computes \<open>1UL << mbIndex\<close> with no check of \<open>mbIndex\<close>: for 32 and
  above the shift is undefined.
\<close>

definition CAN_ReceiveBlocking :: "can_hw \<Rightarrow> nat \<Rightarrow> nat \<Rightarrow> can_message_t option \<Rightarrow> 32 word \<Rightarrow> can_state \<Rightarrow> fault + status_t \<times> can_message_t option \<times> can_state" where
  "CAN_ReceiveBlocking hw inst mbIdx msg timeoutMs s =
     (if inst \<ge> CAN_INSTANCE_COUNT \<or> msg = None then Inr (STATUS_INVALID_PARAM, msg, s)
      else if \<not> s_canInitialized s inst then Inr (STATUS_NOT_INITIALIZED, msg, s)
      else if mbIdx \<ge> 32 then Inl SHIFT_OUT_OF_RANGE
      else Inr (CAN_ReceiveBlocking_wait hw inst mbIdx msg (unat (timeoutMs * 1000)) s))"

definition CAN_ConfigRxFilter :: "nat \<Rightarrow> nat \<Rightarrow> can_rx_filter_t option \<Rightarrow> can_state \<Rightarrow> status_t \<times> can_state" where
  "CAN_ConfigRxFilter inst mbIdx flt s =
     (if inst \<ge> CAN_INSTANCE_COUNT \<or> flt = None then (STATUS_INVALID_PARAM, s)
      else if \<not> s_canInitialized s inst then (STATUS_NOT_INITIALIZED, s)
      else if mbIdx < CAN_RX_MB_START \<or> mbIdx \<ge> CAN_MB_COUNT then (STATUS_INVALID_PARAM, s)
      else
        let f = the flt;
            base = s_canBases inst;
            mbOffset = mbIdx * MSG_BUF_SIZE;
            idw = (if filter_idType f = CAN_ID_EXT
                   then push_bit CAN_ID_EXT_SHIFT (filter_id f) AND CAN_ID_EXT_MASK
                   else push_bit CAN_ID_STD_SHIFT (filter_id f) AND CAN_ID_STD_MASK);
            s = reg_write base (RAMn (mbOffset + 1)) idw s;
            cs = push_bit CAN_CS_CODE_SHIFT CAN_CS_CODE_RX_EMPTY;
            cs = (if filter_idType f = CAN_ID_EXT then cs OR CAN_WMBn_CS_IDE_MASK else cs);
            s = reg_write base (RAMn (mbOffset + 0)) cs s;
            s = reg_write base (RXIMR mbIdx) (filter_mask f) s;
            (imask, s) = reg_read base IMASK1 s;
            s = reg_write base IMASK1 (imask OR push_bit mbIdx 1) s
        in (STATUS_SUCCESS, s))"

definition CAN_ConfigTxMailbox :: "nat \<Rightarrow> nat \<Rightarrow> can_state \<Rightarrow> status_t \<times> can_state" where
  "CAN_ConfigTxMailbox inst mbIdx s =
     (if inst \<ge> CAN_INSTANCE_COUNT then (STATUS_INVALID_PARAM, s)
      else if \<not> s_canInitialized s inst then (STATUS_NOT_INITIALIZED, s)
      else if mbIdx < CAN_TX_MB_START \<or> mbIdx \<ge> CAN_TX_MB_START + CAN_TX_MB_COUNT
        then (STATUS_INVALID_PARAM, s)
      else
        let base = s_canBases inst;
            mbOffset = mbIdx * MSG_BUF_SIZE;
            s = reg_write base (RAMn (mbOffset + 0))
                  (push_bit CAN_CS_CODE_SHIFT CAN_CS_CODE_TX_INACTIVE) s;
            (imask, s) = reg_read base IMASK1 s;
            s = reg_write base IMASK1 (imask OR push_bit mbIdx 1) s
        in (STATUS_SUCCESS, s))"

subsection \<open>Abort and busy query\<close>

definition CAN_AbortTransmission :: "nat \<Rightarrow> nat \<Rightarrow> can_state \<Rightarrow> status_t \<times> can_state" where
  "CAN_AbortTransmission inst mbIdx s =
     (if inst \<ge> CAN_INSTANCE_COUNT \<or> mbIdx \<ge> CAN_MB_COUNT then (STATUS_INVALID_PARAM, s)
      else
        let base = s_canBases inst;
            mbOffset = mbIdx * MSG_BUF_SIZE
        in (STATUS_SUCCESS,
            reg_write base (RAMn (mbOffset + 0))
              (push_bit CAN_CS_CODE_SHIFT CAN_CS_CODE_TX_ABORT) s))"

text \<open>\<open>CAN_IsMbBusy\<close>; the out-parameter \<open>isBusy\<close> as for \<open>CAN_Receive\<close>.\<close>

definition CAN_IsMbBusy :: "nat \<Rightarrow> nat \<Rightarrow> bool option \<Rightarrow> can_state \<Rightarrow> status_t \<times> bool option \<times> can_state" where
  "CAN_IsMbBusy inst mbIdx isBusy s =
     (if inst \<ge> CAN_INSTANCE_COUNT \<or> mbIdx \<ge> CAN_MB_COUNT \<or> isBusy = None
        then (STATUS_INVALID_PARAM, isBusy, s)
      else
        let base = s_canBases inst;
            mbOffset = mbIdx * MSG_BUF_SIZE;
            (cs, s) = reg_read base (RAMn (mbOffset + 0)) s;
            code = drop_bit CAN_CS_CODE_SHIFT (cs AND CAN_CS_CODE_MASK)
        in (STATUS_SUCCESS,
            Some (code \<noteq> CAN_CS_CODE_TX_INACTIVE \<and> code \<noteq> CAN_CS_CODE_RX_INACTIVE), s))"

subsection \<open>Bit timing\<close>

text \<open>
  \<open>CAN_CalculateTiming\<close>. All arithmetic is \<open>uint32_t\<close>: the product \<open>baudRate * numTq\<close>
  and the subtraction of 1 wrap around. A product that wraps to 0 makes the division
  undefined. The out-parameter \<open>timing\<close> is written only on success; both assignments to
  \<open>timing->preDiv\<close> are kept, in the order of the source.
\<close>

definition CAN_CalculateTiming_fill :: "32 word \<Rightarrow> can_timing_config_t \<Rightarrow> can_timing_config_t" where
  "CAN_CalculateTiming_fill pd t =
     (let t = t\<lparr>preDiv := ucast pd\<rparr>;
          t = t\<lparr>preDiv := 0\<rparr>;
          t = t\<lparr>propSeg := 6\<rparr>;
          t = t\<lparr>phaseSeg1 := 3\<rparr>;
          t = t\<lparr>phaseSeg2 := 3\<rparr>
      in t\<lparr>rJumpWidth := 3\<rparr>)"

definition CAN_CalculateTiming :: "32 word \<Rightarrow> 32 word \<Rightarrow> can_timing_config_t option \<Rightarrow> fault + status_t \<times> can_timing_config_t option" where
  "CAN_CalculateTiming canClockHz baud timing =
     (if timing = None \<or> baud = 0 \<or> canClockHz = 0 then Inr (STATUS_INVALID_PARAM, timing)
      else if baud * 16 = 0 then Inl DIVIDE_BY_ZERO
      else
        let pd = canClockHz div (baud * 16) - 1
        in if pd > 255
           then (if baud * 8 = 0 then Inl DIVIDE_BY_ZERO
                 else
                   let pd = canClockHz div (baud * 8) - 1
                   in if pd > 255 then Inr (STATUS_INVALID_PARAM, timing)
                      else Inr (STATUS_SUCCESS, Some (CAN_CalculateTiming_fill pd (the timing))))
           else Inr (STATUS_SUCCESS, Some (CAN_CalculateTiming_fill pd (the timing))))"

subsection \<open>Controller state machine and \<open>CAN_Init\<close>\<close>

text \<open>\<open>reg |= m\<close> and \<open>reg &= ~m\<close>: a read followed by a write.\<close>

definition reg_set :: "32 word \<Rightarrow> can_reg \<Rightarrow> 32 word \<Rightarrow> can_state \<Rightarrow> can_state" where
  "reg_set base r m s = (let (v, s) = reg_read base r s in reg_write base r (v OR m) s)"

definition reg_clear :: "32 word \<Rightarrow> can_reg \<Rightarrow> 32 word \<Rightarrow> can_state \<Rightarrow> can_state" where
  "reg_clear base r m s = (let (v, s) = reg_read base r s in reg_write base r (v AND NOT m) s)"

text \<open>
  The loop \<open>while ((timeout > 0U) && waiting(base->MCR)) timeout--;\<close>, which returns the
  value of \<open>timeout\<close> left. \<open>MCR\<close> is not read once \<open>timeout\<close> is 0.
\<close>

fun CAN_poll_MCR :: "can_hw \<Rightarrow> 32 word \<Rightarrow> (32 word \<Rightarrow> bool) \<Rightarrow> nat \<Rightarrow> can_state \<Rightarrow> nat \<times> can_state" where
  "CAN_poll_MCR hw base waiting 0 s = (0, s)"
| "CAN_poll_MCR hw base waiting (Suc t) s =
     (let (v, s) = reg_read base MCR (hw_step hw s)
      in if waiting v then CAN_poll_MCR hw base waiting t s else (Suc t, s))"

definition CAN_EnterFreezeMode :: "can_hw \<Rightarrow> 32 word \<Rightarrow> can_state \<Rightarrow> status_t \<times> can_state" where
  "CAN_EnterFreezeMode hw base s =
     (let s = reg_set base MCR (CAN_MCR_FRZ_MASK OR CAN_MCR_HALT_MASK) s;
          (timeout, s) = CAN_poll_MCR hw base (\<lambda>v. v AND CAN_MCR_FRZACK_MASK = 0)
                           CAN_FREEZE_TIMEOUT s
      in if timeout = 0 then (STATUS_TIMEOUT, s) else (STATUS_SUCCESS, s))"

definition CAN_ExitFreezeMode :: "can_hw \<Rightarrow> 32 word \<Rightarrow> can_state \<Rightarrow> status_t \<times> can_state" where
  "CAN_ExitFreezeMode hw base s =
     (let s = reg_clear base MCR (CAN_MCR_FRZ_MASK OR CAN_MCR_HALT_MASK) s;
          (timeout, s) = CAN_poll_MCR hw base (\<lambda>v. v AND CAN_MCR_FRZACK_MASK \<noteq> 0)
                           CAN_FREEZE_TIMEOUT s
      in if timeout = 0 then (STATUS_TIMEOUT, s)
         else
           let (timeout, s) = CAN_poll_MCR hw base (\<lambda>v. v AND CAN_MCR_NOTRDY_MASK \<noteq> 0)
                                CAN_FREEZE_TIMEOUT s
           in if timeout = 0 then (STATUS_TIMEOUT, s) else (STATUS_SUCCESS, s))"

definition CAN_SoftReset :: "can_hw \<Rightarrow> 32 word \<Rightarrow> can_state \<Rightarrow> status_t \<times> can_state" where
  "CAN_SoftReset hw base s =
     (let s = reg_set base MCR CAN_MCR_SOFTRST_MASK s;
          (timeout, s) = CAN_poll_MCR hw base (\<lambda>v. v AND CAN_MCR_SOFTRST_MASK \<noteq> 0)
                           CAN_FREEZE_TIMEOUT s
      in if timeout = 0 then (STATUS_TIMEOUT, s) else (STATUS_SUCCESS, s))"

definition CAN_EnableClock :: "nat \<Rightarrow> can_clk_src_t \<Rightarrow> can_state \<Rightarrow> can_state" where
  "CAN_EnableClock inst clk s =
     (let base = s_canBases inst;
          s = reg_set base MCR CAN_MCR_MDIS_MASK s;
          s = (if clk = CAN_CLK_SRC_SOSCDIV2 then reg_clear base CTRL1 CAN_CTRL1_CLKSRC_MASK s
               else reg_set base CTRL1 CAN_CTRL1_CLKSRC_MASK s)
      in reg_clear base MCR CAN_MCR_MDIS_MASK s)"

definition CAN_InitMessageBuffers :: "32 word \<Rightarrow> can_state \<Rightarrow> can_state" where
  "CAN_InitMessageBuffers base s =
     (let s = fold (\<lambda>i. reg_write base (RAMn i) 0) [0..<128] s;
          s = fold (\<lambda>i. reg_write base (RXIMR i) 0xFFFFFFFF) [0..<16] s
      in reg_write base IFLAG1 0xFFFFFFFF s)"

definition CAN_GetClockFrequency :: "can_clk_src_t \<Rightarrow> 32 word" where
  "CAN_GetClockFrequency clk =
     (case clk of
        CAN_CLK_SRC_SOSCDIV2 \<Rightarrow> 4000000
      | CAN_CLK_SRC_BUSCLOCK \<Rightarrow> 40000000
      | _ \<Rightarrow> CAN_DEFAULT_CLK_FREQ)"

text \<open>
  The local \<open>timing\<close> of \<open>CAN_Init\<close> is not initialised; \<open>CAN_CalculateTiming\<close> assigns every
  field before \<open>CAN_Init\<close> reads one, so the contents it starts with do not matter.
\<close>

definition timing_local :: can_timing_config_t where
  "timing_local = \<lparr>propSeg = 0, phaseSeg1 = 0, phaseSeg2 = 0, rJumpWidth = 0, preDiv = 0\<rparr>"

text \<open>The part of \<open>CAN_Init\<close> after the timing is known, up to the exit from freeze mode.\<close>

definition CAN_Init_configure :: "can_hw \<Rightarrow> can_config_t \<Rightarrow> can_timing_config_t \<Rightarrow> can_state \<Rightarrow> status_t \<times> can_state" where
  "CAN_Init_configure hw c t s =
     (let base = s_canBases (cfg_instance c);
          s = reg_write base CTRL1
                (push_bit CAN_CTRL1_PRESDIV_SHIFT (ucast (preDiv t)) OR
                 push_bit CAN_CTRL1_RJW_SHIFT (ucast (rJumpWidth t)) OR
                 push_bit CAN_CTRL1_PSEG1_SHIFT (ucast (phaseSeg1 t)) OR
                 push_bit CAN_CTRL1_PSEG2_SHIFT (ucast (phaseSeg2 t)) OR
                 push_bit CAN_CTRL1_PROPSEG_SHIFT (ucast (propSeg t)) OR
                 push_bit CAN_CTRL1_SMP_SHIFT 3) s;
          s = (if mode c = CAN_MODE_LOOPBACK then reg_set base CTRL1 CAN_CTRL1_LPB_MASK s
               else if mode c = CAN_MODE_LISTEN_ONLY then reg_set base CTRL1 CAN_CTRL1_LOM_MASK s
               else s);
          s = (if \<not> enableSelfReception c then reg_set base MCR CAN_MCR_SRXDIS_MASK s else s);
          s = (if useRxFifo c then reg_set base MCR CAN_MCR_RFEN_MASK s
               else reg_clear base MCR CAN_MCR_RFEN_MASK s);
          (mcr, s) = reg_read base MCR s;
          s = reg_write base MCR
                ((mcr AND NOT CAN_MCR_MAXMB_MASK) OR
                 push_bit CAN_MCR_MAXMB_SHIFT (of_nat (CAN_MB_COUNT - 1))) s;
          s = CAN_InitMessageBuffers base s;
          s = reg_write base RXMGMASK 0x1FFFFFFF s;
          s = reg_write base ECR 0 s;
          (status, s) = CAN_ExitFreezeMode hw base s
      in if status \<noteq> STATUS_SUCCESS then (STATUS_ERROR, s)
         else (STATUS_SUCCESS,
               s\<lparr>s_canInitialized := (s_canInitialized s)(cfg_instance c := True)\<rparr>))"

definition CAN_Init :: "can_hw \<Rightarrow> can_config_t option \<Rightarrow> can_state \<Rightarrow> fault + status_t \<times> can_state" where
  "CAN_Init hw config s =
     (case config of
        None \<Rightarrow> Inr (STATUS_INVALID_PARAM, s)
      | Some c \<Rightarrow>
          if cfg_instance c \<ge> CAN_INSTANCE_COUNT then Inr (STATUS_INVALID_PARAM, s)
          else
            let base = s_canBases (cfg_instance c);
                s = CAN_EnableClock (cfg_instance c) (clockSource c) s;
                canClockHz = CAN_GetClockFrequency (clockSource c);
                (status, s) = CAN_EnterFreezeMode hw base s
            in if status \<noteq> STATUS_SUCCESS then Inr (STATUS_ERROR, s)
               else
                 let (status, s) = CAN_SoftReset hw base s
                 in if status \<noteq> STATUS_SUCCESS then Inr (STATUS_ERROR, s)
                    else
                      (case CAN_CalculateTiming canClockHz (baudRate c) (Some timing_local) of
                         Inl f \<Rightarrow> Inl f
                       | Inr (status, timing) \<Rightarrow>
                           if status \<noteq> STATUS_SUCCESS then Inr (STATUS_INVALID_PARAM, s)
                           else Inr (CAN_Init_configure hw c (the timing) s)))"

definition CAN_Deinit :: "nat \<Rightarrow> can_state \<Rightarrow> status_t \<times> can_state" where
  "CAN_Deinit inst s =
     (if inst \<ge> CAN_INSTANCE_COUNT then (STATUS_INVALID_PARAM, s)
      else
        let s = reg_set (s_canBases inst) MCR CAN_MCR_MDIS_MASK s
        in (STATUS_SUCCESS, s\<lparr>s_canInitialized := (s_canInitialized s)(inst := False)\<rparr>))"

subsection \<open>Callback registry\<close>

definition CAN_GetInstanceIndex :: "32 word \<Rightarrow> nat" where
  "CAN_GetInstanceIndex base =
     (if base = CAN0 then 0 else if base = CAN1 then 1 else if base = CAN2 then 2 else 0xFF)"

definition CAN_RegisterCallback :: "32 word \<Rightarrow> can_callback_t option \<Rightarrow> can_state \<Rightarrow> status_t \<times> can_state" where
  "CAN_RegisterCallback inst callback s =
     (let index = CAN_GetInstanceIndex inst
      in if index = 0xFF then (STATUS_INVALID_PARAM, s)
         else (STATUS_SUCCESS, s\<lparr>s_canCallbacks := (s_canCallbacks s)(index := callback)\<rparr>))"

definition CAN_UnregisterCallback :: "32 word \<Rightarrow> can_state \<Rightarrow> status_t \<times> can_state" where
  "CAN_UnregisterCallback inst s =
     (let index = CAN_GetInstanceIndex inst
      in if index = 0xFF then (STATUS_INVALID_PARAM, s)
         else (STATUS_SUCCESS, s\<lparr>s_canCallbacks := (s_canCallbacks s)(index := None)\<rparr>))"

subsection \<open>Mailbox access primitives (inline functions of can.h)\<close>

definition CAN_GetMbOffset :: "nat \<Rightarrow> nat" where
  "CAN_GetMbOffset mbIdx = mbIdx * 4"

definition CAN_ReadMbCs :: "32 word \<Rightarrow> nat \<Rightarrow> can_state \<Rightarrow> 32 word \<times> can_state" where
  "CAN_ReadMbCs base mbIdx s = reg_read base (RAMn (CAN_GetMbOffset mbIdx + 0)) s"

definition CAN_WriteMbCs :: "32 word \<Rightarrow> nat \<Rightarrow> 32 word \<Rightarrow> can_state \<Rightarrow> can_state" where
  "CAN_WriteMbCs base mbIdx cs s = reg_write base (RAMn (CAN_GetMbOffset mbIdx + 0)) cs s"

definition CAN_ReadMbId :: "32 word \<Rightarrow> nat \<Rightarrow> can_state \<Rightarrow> 32 word \<times> can_state" where
  "CAN_ReadMbId base mbIdx s = reg_read base (RAMn (CAN_GetMbOffset mbIdx + 1)) s"

definition CAN_ReadMbData :: "32 word \<Rightarrow> nat \<Rightarrow> nat \<Rightarrow> can_state \<Rightarrow> 32 word \<times> can_state" where
  "CAN_ReadMbData base mbIdx wordIdx s =
     reg_read base (RAMn (CAN_GetMbOffset mbIdx + 2 + wordIdx)) s"

text \<open>
  \<open>CAN_CopyDataFromMb\<close>: the two loops assign \<open>data[i]\<close> for \<open>i\<close> below \<open>length\<close> only, the
  first for \<open>i\<close> in 0..3, the second for \<open>i\<close> in 4..7.
\<close>

definition CAN_CopyDataFromMb :: "32 word \<Rightarrow> nat \<Rightarrow> 8 word list \<Rightarrow> 8 word \<Rightarrow> can_state \<Rightarrow> 8 word list \<times> can_state" where
  "CAN_CopyDataFromMb base mbIdx dat len s =
     (let (dataWord0, s) = CAN_ReadMbData base mbIdx 0 s;
          (dataWord1, s) = CAN_ReadMbData base mbIdx 1 s;
          dat = fold (\<lambda>i d. d[i := ucast (drop_bit (24 - i * 8) dataWord0)])
                  [0..<min (unat len) 4] dat;
          dat = fold (\<lambda>i d. d[i := ucast (drop_bit (56 - i * 8) dataWord1)])
                  [4..<min (unat len) 8] dat
      in (dat, s))"

subsection \<open>Interrupt dispatcher\<close>

text \<open>The locals \<open>eventData = {0}\<close> and \<open>rxMessage = {0}\<close>.\<close>

definition eventData_zero :: can_event_data_t where
  "eventData_zero = \<lparr>mbIndex = 0, message = None, errorFlags = 0\<rparr>"

definition rxMessage_zero :: can_message_t where
  "rxMessage_zero =
     \<lparr>msg_id = 0, idType = CAN_ID_STD, frameType = CAN_FRAME_DATA, dataLength = 0,
      msg_data = replicate 8 0\<rparr>"

text \<open>
  The call \<open>s_canCallbacks[instIdx](instance, event, &eventData)\<close>, made only when the
  event is not \<open>CAN_EVENT_NONE\<close>: the invocation is recorded with the message that
  \<open>eventData.message\<close> points to at that moment. The body of the callback is application
  code and is not part of the driver. The handler reaches this call only with a callback
  registered for \<open>instIdx\<close>.
\<close>

definition CAN_IRQHandler_callback :: "nat \<Rightarrow> 32 word \<Rightarrow> can_event_t \<Rightarrow> can_event_data_t \<Rightarrow> can_state \<Rightarrow> can_state" where
  "CAN_IRQHandler_callback instIdx inst event eventData s =
     (if event \<noteq> CAN_EVENT_NONE
      then s\<lparr>calls := calls s @ [(the (s_canCallbacks s instIdx), inst, event, eventData)]\<rparr>
      else s)"

text \<open>The body of the scan loop for the mailbox \<open>mbIdx\<close> whose flag was found set.\<close>

definition CAN_IRQHandler_mb :: "nat \<Rightarrow> 32 word \<Rightarrow> nat \<Rightarrow> can_state \<Rightarrow> can_state" where
  "CAN_IRQHandler_mb instIdx inst mbIdx s =
     (let (cs, s) = CAN_ReadMbCs inst mbIdx s;
          code = (ucast (drop_bit CAN_CS_CODE_SHIFT (cs AND CAN_CS_CODE_MASK)) :: 8 word)
      in if ucast code = CAN_CS_CODE_TX_INACTIVE then
           let eventData = eventData_zero\<lparr>mbIndex := mbIdx\<rparr>;
               s = reg_write inst IFLAG1 (push_bit mbIdx 1) s
           in CAN_IRQHandler_callback instIdx inst CAN_EVENT_TX_COMPLETE eventData s
         else if ucast code = CAN_CS_CODE_RX_FULL then
           let eventData = eventData_zero\<lparr>mbIndex := mbIdx\<rparr>;
               dlc = (ucast (drop_bit CAN_WMBn_CS_DLC_SHIFT (cs AND CAN_WMBn_CS_DLC_MASK)) :: 8 word);
               rxMessage = rxMessage_zero\<lparr>dataLength := (if dlc > 8 then 8 else dlc)\<rparr>;
               (idReg, s) = CAN_ReadMbId inst mbIdx s;
               rxMessage =
                 (if cs AND CAN_WMBn_CS_IDE_MASK \<noteq> 0
                  then rxMessage\<lparr>idType := CAN_ID_EXT,
                         msg_id := drop_bit CAN_ID_EXT_SHIFT (idReg AND CAN_ID_EXT_MASK)\<rparr>
                  else rxMessage\<lparr>idType := CAN_ID_STD,
                         msg_id := drop_bit CAN_ID_STD_SHIFT (idReg AND CAN_ID_STD_MASK)\<rparr>);
               rxMessage = rxMessage\<lparr>frameType :=
                   (if cs AND CAN_WMBn_CS_RTR_MASK \<noteq> 0 then CAN_FRAME_REMOTE else CAN_FRAME_DATA)\<rparr>;
               (dat, s) = CAN_CopyDataFromMb inst mbIdx (msg_data rxMessage) (dataLength rxMessage) s;
               rxMessage = rxMessage\<lparr>msg_data := dat\<rparr>;
               eventData = eventData\<lparr>message := Some rxMessage\<rparr>;
               s = reg_write inst IFLAG1 (push_bit mbIdx 1) s;
               s = CAN_WriteMbCs inst mbIdx
                     (push_bit CAN_CS_CODE_SHIFT CAN_CS_CODE_RX_EMPTY OR
                      (cs AND (CAN_WMBn_CS_IDE_MASK OR CAN_WMBn_CS_RTR_MASK))) s
           in CAN_IRQHandler_callback instIdx inst CAN_EVENT_RX_COMPLETE eventData s
         else CAN_IRQHandler_callback instIdx inst CAN_EVENT_NONE eventData_zero s)"

text \<open>
  \<open>CAN_IRQHandler\<close>. The \<open>for\<close> loop over \<open>mbIdx\<close> from 0 to 31 runs its body at the first
  index whose flag is set in the value read and then leaves by \<open>break\<close>: \<open>find\<close> on the
  indices in increasing order.
\<close>

definition CAN_IRQHandler :: "32 word \<Rightarrow> can_state \<Rightarrow> can_state" where
  "CAN_IRQHandler inst s =
     (let instIdx = CAN_GetInstanceIndex inst
      in if instIdx = 0xFF \<or> s_canCallbacks s instIdx = None then s
         else
           let (iflag1, s) = reg_read inst IFLAG1 s
           in if iflag1 \<noteq> 0
              then (case find (\<lambda>mbIdx. iflag1 AND push_bit mbIdx 1 \<noteq> 0) [0..<32] of
                      None \<Rightarrow> s
                    | Some mbIdx \<Rightarrow> CAN_IRQHandler_mb instIdx inst mbIdx s)
              else s)"

subsection \<open>Error queries\<close>

definition CAN_GetErrorState :: "nat \<Rightarrow> can_error_state_t option \<Rightarrow> can_state \<Rightarrow> status_t \<times> can_error_state_t option \<times> can_state" where
  "CAN_GetErrorState inst errorState s =
     (if inst \<ge> CAN_INSTANCE_COUNT \<or> errorState = None then (STATUS_INVALID_PARAM, errorState, s)
      else
        let (esr1, s) = reg_read (s_canBases inst) ESR1 s;
            fltConf = drop_bit CAN_ESR1_FLTCONF_SHIFT (esr1 AND CAN_ESR1_FLTCONF_MASK)
        in (STATUS_SUCCESS,
            Some (if fltConf = 0 then CAN_ERROR_ACTIVE
                  else if fltConf = 1 then CAN_ERROR_PASSIVE else CAN_ERROR_BUS_OFF), s))"

text \<open>\<open>CAN_GetErrorCounters\<close> reads \<open>ECR\<close> twice, once for each counter.\<close>

definition CAN_GetErrorCounters :: "nat \<Rightarrow> 8 word option \<Rightarrow> 8 word option \<Rightarrow> can_state \<Rightarrow> status_t \<times> 8 word option \<times> 8 word option \<times> can_state" where
  "CAN_GetErrorCounters inst txErrorCount rxErrorCount s =
     (if inst \<ge> CAN_INSTANCE_COUNT \<or> txErrorCount = None \<or> rxErrorCount = None
        then (STATUS_INVALID_PARAM, txErrorCount, rxErrorCount, s)
      else
        let (ecr, s) = reg_read (s_canBases inst) ECR s;
            tx = (ucast (drop_bit 8 ecr AND 0xFF) :: 8 word);
            (ecr, s) = reg_read (s_canBases inst) ECR s;
            rx = (ucast (ecr AND 0xFF) :: 8 word)
        in (STATUS_SUCCESS, Some tx, Some rx, s))"

subsection \<open>Sequences of driver calls\<close>

text \<open>
  One call of the driver's interface, with its arguments. \<open>Call_IRQHandler\<close> is the entry
  of the interrupt shims of can_irq.c.
\<close>

datatype can_call =
    Call_Init "can_config_t option"
  | Call_Deinit nat
  | Call_Send nat nat "can_message_t option"
  | Call_SendBlocking nat nat "can_message_t option" "32 word"
  | Call_Receive nat nat "can_message_t option"
  | Call_ReceiveBlocking nat nat "can_message_t option" "32 word"
  | Call_ConfigRxFilter nat nat "can_rx_filter_t option"
  | Call_ConfigTxMailbox nat nat
  | Call_AbortTransmission nat nat
  | Call_IsMbBusy nat nat "bool option"
  | Call_GetErrorState nat "can_error_state_t option"
  | Call_GetErrorCounters nat "8 word option" "8 word option"
  | Call_RegisterCallback "32 word" "can_callback_t option"
  | Call_UnregisterCallback "32 word"
  | Call_IRQHandler "32 word"

text \<open>
  The status a call returns (none for the \<open>void\<close> handler) and the state after it, with the
  peripheral behaving as \<open>hw\<close> during the call.
\<close>

fun can_call_run :: "can_hw \<Rightarrow> can_call \<Rightarrow> can_state \<Rightarrow> fault + status_t option \<times> can_state" where
  "can_call_run hw (Call_Init config) s =
     (case CAN_Init hw config s of Inl f \<Rightarrow> Inl f | Inr (st, s') \<Rightarrow> Inr (Some st, s'))"
| "can_call_run hw (Call_Deinit inst) s =
     (let (st, s') = CAN_Deinit inst s in Inr (Some st, s'))"
| "can_call_run hw (Call_Send inst mbIdx msg) s =
     (let (st, s') = CAN_Send inst mbIdx msg s in Inr (Some st, s'))"
| "can_call_run hw (Call_SendBlocking inst mbIdx msg timeoutMs) s =
     (let (st, s') = CAN_SendBlocking hw inst mbIdx msg timeoutMs s in Inr (Some st, s'))"
| "can_call_run hw (Call_Receive inst mbIdx msg) s =
     (let (st, m, s') = CAN_Receive inst mbIdx msg s in Inr (Some st, s'))"
| "can_call_run hw (Call_ReceiveBlocking inst mbIdx msg timeoutMs) s =
     (case CAN_ReceiveBlocking hw inst mbIdx msg timeoutMs s of
        Inl f \<Rightarrow> Inl f
      | Inr (st, m, s') \<Rightarrow> Inr (Some st, s'))"
| "can_call_run hw (Call_ConfigRxFilter inst mbIdx flt) s =
     (let (st, s') = CAN_ConfigRxFilter inst mbIdx flt s in Inr (Some st, s'))"
| "can_call_run hw (Call_ConfigTxMailbox inst mbIdx) s =
     (let (st, s') = CAN_ConfigTxMailbox inst mbIdx s in Inr (Some st, s'))"
| "can_call_run hw (Call_AbortTransmission inst mbIdx) s =
     (let (st, s') = CAN_AbortTransmission inst mbIdx s in Inr (Some st, s'))"
| "can_call_run hw (Call_IsMbBusy inst mbIdx isBusy) s =
     (let (st, b, s') = CAN_IsMbBusy inst mbIdx isBusy s in Inr (Some st, s'))"
| "can_call_run hw (Call_GetErrorState inst errorState) s =
     (let (st, e, s') = CAN_GetErrorState inst errorState s in Inr (Some st, s'))"
| "can_call_run hw (Call_GetErrorCounters inst txErrorCount rxErrorCount) s =
     (let (st, t, r, s') = CAN_GetErrorCounters inst txErrorCount rxErrorCount s
      in Inr (Some st, s'))"
| "can_call_run hw (Call_RegisterCallback inst callback) s =
     (let (st, s') = CAN_RegisterCallback inst callback s in Inr (Some st, s'))"
| "can_call_run hw (Call_UnregisterCallback inst) s =
     (let (st, s') = CAN_UnregisterCallback inst s in Inr (Some st, s'))"
| "can_call_run hw (Call_IRQHandler inst) s = Inr (None, CAN_IRQHandler inst s)"

text \<open>
  A sequence of calls, each with the peripheral's behaviour during it, run from a state:
  the calls with the status each returned, and the final state. A fault ends the run.
\<close>

fun can_run :: "(can_hw \<times> can_call) list \<Rightarrow> can_state \<Rightarrow> fault + (can_call \<times> status_t option) list \<times> can_state" where
  "can_run [] s = Inr ([], s)"
| "can_run ((hw, c) # cs) s =
     (case can_call_run hw c s of
        Inl f \<Rightarrow> Inl f
      | Inr (st, s') \<Rightarrow>
          (case can_run cs s' of
             Inl f \<Rightarrow> Inl f
           | Inr (lg, s'') \<Rightarrow> Inr ((c, st) # lg, s'')))"

text \<open>An entry of such a log that is a \<open>CAN_Init\<close> on instance \<open>i\<close> returning success.\<close>

fun init_done :: "nat \<Rightarrow> can_call \<times> status_t option \<Rightarrow> bool" where
  "init_done i (Call_Init (Some c), st) = (cfg_instance c = i \<and> st = Some STATUS_SUCCESS)"
| "init_done i (_, st) = False"

text \<open>An entry that is a \<open>CAN_Deinit\<close> on instance \<open>i\<close> returning success.\<close>

fun deinit_done :: "nat \<Rightarrow> can_call \<times> status_t option \<Rightarrow> bool" where
  "deinit_done i (Call_Deinit inst, st) = (inst = i \<and> st = Some STATUS_SUCCESS)"
| "deinit_done i (_, st) = False"

text \<open>
  Whether, going by a log alone, instance \<open>i\<close> counts as initialised after it, when \<open>b\<close>
  says whether it did before: the last successful \<open>CAN_Init\<close> or \<open>CAN_Deinit\<close> on \<open>i\<close>
  decides, and every other entry, a failed \<open>CAN_Init\<close> among them, changes nothing.
\<close>

fun initialized_after :: "nat \<Rightarrow> (can_call \<times> status_t option) list \<Rightarrow> bool \<Rightarrow> bool" where
  "initialized_after i [] b = b"
| "initialized_after i (e # lg) b =
     initialized_after i lg
       (if init_done i e then True else if deinit_done i e then False else b)"

subsection \<open>Concrete inputs of the examples\<close>

text \<open>
  A standard data frame with identifier 0x123 and eight payload bytes, and a state in
  which instance 0 is initialised, all registers are 0 and nothing was logged.
\<close>

definition msg_example :: can_message_t where
  "msg_example =
     \<lparr>msg_id = 0x123, idType = CAN_ID_STD, frameType = CAN_FRAME_DATA, dataLength = 8,
      msg_data = [1, 2, 3, 4, 5, 6, 7, 8]\<rparr>"

definition state_ready :: can_state where
  "state_ready = (can_state_reset (\<lambda>_ _. 0))\<lparr>s_canInitialized := (\<lambda>_. False)(0 := True)\<rparr>"

text \<open>
  A state of instance 0 in which the flags of mailboxes 3 and 9 are pending: mailbox 3 holds
  a received standard frame (CODE RX-full, DLC 8), mailbox 9 is TX-inactive. In
  \<open>state_pending\<close> no callback is registered, in \<open>state_irq\<close> callback 7 is.
\<close>

definition state_pending :: can_state where
  "state_pending =
     can_state_reset ((\<lambda>_ _. 0)(CAN0 := (\<lambda>_. 0)(IFLAG1 := 0x208, RAMn 12 := 0x02080000,
        RAMn 13 := 0x048C0000, RAMn 14 := 0x01020304, RAMn 15 := 0x05060708,
        RAMn 36 := 0x08000000)))"

definition state_irq :: can_state where
  "state_irq = state_pending\<lparr>s_canCallbacks := (\<lambda>_. None)(0 := Some 7)\<rparr>"


text \<open>The register that a bus access goes to.\<close>

fun access_reg :: "bus_access \<Rightarrow> can_reg" where
  "access_reg (Read r) = r"
| "access_reg (Write r v) = r"

text \<open>
  A state of instance 0 whose mailbox 16 is pending and holds the four words that
  \<open>CAN_Send\<close> writes for \<open>msg_example\<close>, as after a loopback delivery.
\<close>

definition state_loopback :: can_state where
  "state_loopback =
     (can_state_reset ((\<lambda>_ _. 0)(CAN0 := (\<lambda>_. 0)(IFLAG1 := 0x10000, RAMn 64 := 0x0C480000,
        RAMn 65 := 0x048C0000, RAMn 66 := 0x01020304, RAMn 67 := 0x05060708))))
     \<lparr>s_canInitialized := (\<lambda>_. False)(0 := True)\<rparr>"

text \<open>The state at reset with all registers 0.\<close>

definition state_start :: can_state where
  "state_start = can_state_reset (\<lambda>_ _. 0)"

text \<open>
  A peripheral that answers every request at the next poll: it acknowledges a freeze
  request, withdraws the acknowledgement and the not-ready flag when the request is
  withdrawn, and completes a soft reset.
\<close>

definition hw_prompt :: can_hw where
  "hw_prompt r =
     (\<lambda>base. (r base)(MCR :=
        (let m = r base MCR;
             req = CAN_MCR_FRZ_MASK OR CAN_MCR_HALT_MASK;
             ack = CAN_MCR_FRZACK_MASK OR CAN_MCR_NOTRDY_MASK;
             m = (if m AND req = req then m OR ack else m AND NOT ack)
         in m AND NOT CAN_MCR_SOFTRST_MASK)))"

text \<open>A peripheral that never changes a register by itself.\<close>

definition hw_idle :: can_hw where
  "hw_idle r = r"

definition config_500k :: can_config_t where
  "config_500k =
     \<lparr>cfg_instance = 0, clockSource = CAN_CLK_SRC_BUSCLOCK, baudRate = 500000,
      mode = CAN_MODE_LOOPBACK, enableSelfReception = True, useRxFifo = False\<rparr>"

definition config_baud0 :: can_config_t where
  "config_baud0 = config_500k\<lparr>baudRate := 0\<rparr>"

definition filter_example :: can_rx_filter_t where
  "filter_example = \<lparr>filter_id = 0x200, filter_mask = 0x700, filter_idType = CAN_ID_STD\<rparr>"

text \<open>
  Modelled from the spec: the acceptance rule of the peripheral, which is hardware and not
  code of the repository: a mailbox accepts a frame when the received ID word and the
  configured ID word agree on every bit set in the mailbox's individual mask register.
\<close>

definition mb_accepts :: "32 word \<Rightarrow> 32 word \<Rightarrow> 32 word \<Rightarrow> bool" where
  "mb_accepts rximr configured received \<longleftrightarrow> received AND rximr = configured AND rximr"

text \<open>
  Two runs with a peripheral that answers at once. In the first \<open>CAN_Init\<close> on instance 0
  succeeds and a second \<open>CAN_Init\<close> on it then fails on its bit rate of 0. In the second
  the instance is shut down by \<open>CAN_Deinit\<close> between the two.
\<close>

definition calls_reinit_failed :: "(can_hw \<times> can_call) list" where
  "calls_reinit_failed =
     [(hw_prompt, Call_Init (Some config_500k)), (hw_prompt, Call_Init (Some config_baud0))]"

definition calls_deinit_failed_init :: "(can_hw \<times> can_call) list" where
  "calls_deinit_failed_init =
     [(hw_prompt, Call_Init (Some config_500k)), (hw_idle, Call_Deinit 0),
      (hw_prompt, Call_Init (Some config_baud0))]"

section \<open>Verified properties\<close>

subsection \<open>The masks as bit ranges\<close>

lemmas can_consts =
  CAN_CS_CODE_SHIFT_def CAN_CS_CODE_MASK_def CAN_CS_CODE_TX_INACTIVE_def
  CAN_CS_CODE_TX_ABORT_def CAN_CS_CODE_TX_DATA_def CAN_CS_CODE_RX_INACTIVE_def
  CAN_CS_CODE_RX_EMPTY_def CAN_CS_CODE_RX_FULL_def CAN_ID_STD_SHIFT_def
  CAN_ID_STD_MASK_def CAN_ID_EXT_SHIFT_def CAN_ID_EXT_MASK_def CAN_MB_COUNT_def
  CAN_INSTANCE_COUNT_def CAN_MAX_DATA_LENGTH_def CAN_TX_MB_START_def
  CAN_TX_MB_COUNT_def CAN_RX_MB_START_def MSG_BUF_SIZE_def
  CAN_WMBn_CS_DLC_SHIFT_def CAN_WMBn_CS_DLC_MASK_def CAN_WMBn_CS_RTR_MASK_def
  CAN_WMBn_CS_IDE_MASK_def CAN_WMBn_CS_SRR_MASK_def CAN0_def CAN1_def CAN2_def

lemma code_mask_eq: "CAN_CS_CODE_MASK = push_bit 24 (mask 4)"
  by (simp add: CAN_CS_CODE_MASK_def mask_eq_exp_minus_1)

lemma tx_data_eq: "CAN_CS_CODE_TX_DATA = push_bit 2 (mask 2)"
  by (simp add: CAN_CS_CODE_TX_DATA_def mask_eq_exp_minus_1)

lemma ide_eq: "CAN_WMBn_CS_IDE_MASK = push_bit 21 1"
  by (simp add: CAN_WMBn_CS_IDE_MASK_def)

lemma rtr_eq: "CAN_WMBn_CS_RTR_MASK = push_bit 20 1"
  by (simp add: CAN_WMBn_CS_RTR_MASK_def)

lemma srr_eq: "CAN_WMBn_CS_SRR_MASK = push_bit 22 1"
  by (simp add: CAN_WMBn_CS_SRR_MASK_def)

lemma dlc_eq: "CAN_WMBn_CS_DLC_MASK = push_bit 16 (mask 4)"
  by (simp add: CAN_WMBn_CS_DLC_MASK_def mask_eq_exp_minus_1)

subsection \<open>Transmit ordering\<close>

lemma CAN_Send_cs_code:
  "drop_bit CAN_CS_CODE_SHIFT (CAN_Send_cs m AND CAN_CS_CODE_MASK) = CAN_CS_CODE_TX_DATA"
  apply (simp add: CAN_Send_cs_def Let_def code_mask_eq tx_data_eq ide_eq rtr_eq srr_eq
      CAN_CS_CODE_SHIFT_def CAN_WMBn_CS_DLC_SHIFT_def)
  apply (rule bit_word_eqI)
  apply (auto simp add: bit_simps dest: bit_imp_le_length)
  done

lemma CAN_Send_run:
  assumes "inst < CAN_INSTANCE_COUNT" and "s_canInitialized s inst"
    and "CAN_TX_MB_START \<le> mbIdx" and "mbIdx < CAN_TX_MB_START + CAN_TX_MB_COUNT"
    and "dataLength m \<le> CAN_MAX_DATA_LENGTH"
  shows "CAN_Send inst mbIdx (Some m) s =
      (STATUS_SUCCESS,
       reg_write (s_canBases inst) (RAMn (mbIdx * 4)) (CAN_Send_cs m)
        (reg_write (s_canBases inst) (RAMn (mbIdx * 4 + 1)) (CAN_Send_id m)
          (reg_write (s_canBases inst) (RAMn (mbIdx * 4 + 3)) (CAN_Send_data1 m)
            (reg_write (s_canBases inst) (RAMn (mbIdx * 4 + 2)) (CAN_Send_data0 m)
              (reg_write (s_canBases inst) IFLAG1 (push_bit mbIdx 1) s)))))"
proof -
  from assms have "\<not> inst \<ge> CAN_INSTANCE_COUNT"
    and "\<not> (mbIdx < CAN_TX_MB_START \<or> mbIdx \<ge> CAN_TX_MB_START + CAN_TX_MB_COUNT)"
    and "\<not> dataLength m > CAN_MAX_DATA_LENGTH"
    by (simp_all add: not_le not_less)
  then show ?thesis
    using assms(2) by (simp add: CAN_Send_def Let_def MSG_BUF_SIZE_def)
qed

text \<open>
  C1. On an initialised instance, for a mailbox index in the TX range 8..15 and a message
  with \<open>dataLength\<close> at most 8, \<open>CAN_Send\<close> succeeds and its bus accesses are exactly five
  writes in this order: the mailbox's bit to \<open>IFLAG1\<close> (which clears the pending flag),
  data word 0, data word 1, the ID word, and last the control-status word, whose CODE field
  is the transmit code. No control-status write comes before the data and ID writes.
\<close>

theorem CAN_Send_write_order:
  assumes "inst < CAN_INSTANCE_COUNT" and "s_canInitialized s inst"
    and "CAN_TX_MB_START \<le> mbIdx" and "mbIdx < CAN_TX_MB_START + CAN_TX_MB_COUNT"
    and "dataLength m \<le> CAN_MAX_DATA_LENGTH"
  shows "fst (CAN_Send inst mbIdx (Some m) s) = STATUS_SUCCESS \<and>
         bus (snd (CAN_Send inst mbIdx (Some m) s)) =
           bus s @
           [(s_canBases inst, Write IFLAG1 (push_bit mbIdx 1)),
            (s_canBases inst, Write (RAMn (mbIdx * 4 + 2)) (CAN_Send_data0 m)),
            (s_canBases inst, Write (RAMn (mbIdx * 4 + 3)) (CAN_Send_data1 m)),
            (s_canBases inst, Write (RAMn (mbIdx * 4 + 1)) (CAN_Send_id m)),
            (s_canBases inst, Write (RAMn (mbIdx * 4)) (CAN_Send_cs m))] \<and>
         drop_bit CAN_CS_CODE_SHIFT (CAN_Send_cs m AND CAN_CS_CODE_MASK) = CAN_CS_CODE_TX_DATA \<and>
         \<not> bit (regs (snd (CAN_Send inst mbIdx (Some m) s)) (s_canBases inst) IFLAG1) mbIdx"
proof -
  note run = CAN_Send_run [OF assms]
  have flag: "\<not> bit (regs (snd (CAN_Send inst mbIdx (Some m) s)) (s_canBases inst) IFLAG1) mbIdx"
    using assms(4)
    by (simp add: run reg_write_def reg_store_def bit_simps CAN_TX_MB_START_def
        CAN_TX_MB_COUNT_def)
  show ?thesis
    using flag CAN_Send_cs_code [of m] by (simp add: run reg_write_def)
qed

theorem CAN_Send_write_order_witness:
  "(0::nat) < CAN_INSTANCE_COUNT \<and> s_canInitialized state_ready 0 \<and>
   CAN_TX_MB_START \<le> 8 \<and> 8 < CAN_TX_MB_START + CAN_TX_MB_COUNT \<and>
   dataLength msg_example \<le> CAN_MAX_DATA_LENGTH \<and>
   fst (CAN_Send 0 8 (Some msg_example) state_ready) = STATUS_SUCCESS \<and>
   bus (snd (CAN_Send 0 8 (Some msg_example) state_ready)) =
     [(CAN0, Write IFLAG1 0x100), (CAN0, Write (RAMn 34) 0x01020304),
      (CAN0, Write (RAMn 35) 0x05060708), (CAN0, Write (RAMn 33) 0x048C0000),
      (CAN0, Write (RAMn 32) 0x0C480000)]"
  using CAN_Send_write_order [of 0 state_ready 8 msg_example]
  by (simp add: can_consts msg_example_def state_ready_def can_state_reset_def s_canBases_def
      CAN_Send_data0_def CAN_Send_data1_def CAN_Send_id_def CAN_Send_cs_def)

subsection \<open>Receive with nothing pending\<close>

text \<open>
  C8. On an initialised instance, for a mailbox index in the RX range 16..31 whose pending
  flag is clear, \<open>CAN_Receive\<close> returns \<open>STATUS_ERROR\<close> (which is not the timeout status),
  leaves the caller's message as it was, and changes nothing in the state but the bus log,
  which gains the one read of \<open>IFLAG1\<close>: no register is written.
\<close>

theorem CAN_Receive_no_data:
  assumes "inst < CAN_INSTANCE_COUNT" and "s_canInitialized s inst"
    and "CAN_RX_MB_START \<le> mbIdx" and "mbIdx < CAN_MB_COUNT"
    and "\<not> bit (regs s (s_canBases inst) IFLAG1) mbIdx"
  shows "CAN_Receive inst mbIdx (Some m) s =
           (STATUS_ERROR, Some m, s\<lparr>bus := bus s @ [(s_canBases inst, Read IFLAG1)]\<rparr>) \<and>
         STATUS_ERROR \<noteq> STATUS_TIMEOUT"
  using assms
  by (simp add: CAN_Receive_def Let_def reg_read_def and_exp_eq_0_iff_not_bit not_le not_less)

theorem CAN_Receive_no_data_witness:
  "(0::nat) < CAN_INSTANCE_COUNT \<and> s_canInitialized state_ready 0 \<and>
   CAN_RX_MB_START \<le> 16 \<and> 16 < CAN_MB_COUNT \<and>
   \<not> bit (regs state_ready (s_canBases 0) IFLAG1) 16 \<and>
   CAN_Receive 0 16 (Some msg_example) state_ready =
     (STATUS_ERROR, Some msg_example, state_ready\<lparr>bus := [(CAN0, Read IFLAG1)]\<rparr>)"
  using CAN_Receive_no_data [of 0 state_ready 16 msg_example]
  by (simp add: can_consts state_ready_def can_state_reset_def s_canBases_def)

subsection \<open>Interrupt dispatcher\<close>

text \<open>
  C10. When the pointer passed to \<open>CAN_IRQHandler\<close> is none of \<open>CAN0\<close>, \<open>CAN1\<close>, \<open>CAN2\<close>, or no
  callback is registered for the instance, the handler returns the state it was given: no
  register is read or written (the bus log is the same), no flag is cleared, no driver
  table changes and no callback is called.
\<close>

theorem CAN_IRQHandler_unregistered:
  assumes "inst \<notin> {CAN0, CAN1, CAN2} \<or> s_canCallbacks s (CAN_GetInstanceIndex inst) = None"
  shows "CAN_IRQHandler inst s = s"
  using assms by (auto simp add: CAN_IRQHandler_def CAN_GetInstanceIndex_def Let_def)

theorem CAN_IRQHandler_unregistered_witness:
  "s_canCallbacks state_pending (CAN_GetInstanceIndex CAN0) = None \<and>
   CAN_IRQHandler CAN0 state_pending = state_pending \<and>
   regs (CAN_IRQHandler CAN0 state_pending) CAN0 IFLAG1 = 0x208 \<and>
   0x40000000 \<notin> {CAN0, CAN1, CAN2} \<and>
   CAN_IRQHandler 0x40000000 state_irq = state_irq"
  using CAN_IRQHandler_unregistered [of CAN0 state_pending]
    CAN_IRQHandler_unregistered [of "0x40000000" state_irq]
  by (simp add: state_pending_def can_state_reset_def CAN0_def CAN1_def CAN2_def)

lemma find_upt_lowest:
  assumes "m < n" and "P m" and "\<forall>j<m. \<not> P j"
  shows "find P [0..<n] = Some m"
  using assms by (auto simp add: find_Some_iff intro!: exI [of _ m])

lemma word_lowest_bit:
  assumes "(w :: 32 word) \<noteq> 0"
  shows "\<exists>m<32. bit w m \<and> (\<forall>j<m. \<not> bit w j)"
proof -
  from assms obtain k where k: "bit w k" by (auto simp add: bit_eq_iff)
  define m where "m = (LEAST i. bit w i)"
  have "bit w m" unfolding m_def using k by (rule LeastI)
  moreover have "\<forall>j<m. \<not> bit w j" unfolding m_def using not_less_Least by blast
  moreover have "m < 32" using \<open>bit w m\<close> bit_imp_le_length [of w m] by simp
  ultimately show ?thesis by blast
qed

text \<open>With a callback registered, the handler runs the loop body at the lowest pending index.\<close>

lemma CAN_IRQHandler_run:
  assumes "CAN_GetInstanceIndex inst \<noteq> 0xFF"
    and "s_canCallbacks s (CAN_GetInstanceIndex inst) = Some cb"
    and "m < 32" and "bit (regs s inst IFLAG1) m" and "\<forall>j<m. \<not> bit (regs s inst IFLAG1) j"
  shows "CAN_IRQHandler inst s =
           CAN_IRQHandler_mb (CAN_GetInstanceIndex inst) inst m
             (s\<lparr>bus := bus s @ [(inst, Read IFLAG1)]\<rparr>)"
proof -
  have nz: "regs s inst IFLAG1 \<noteq> 0" using assms(4) by auto
  have "find (\<lambda>mbIdx. regs s inst IFLAG1 AND push_bit mbIdx 1 \<noteq> 0) [0..<32] = Some m"
    using assms(3-5) by (intro find_upt_lowest) (simp_all add: and_exp_eq_0_iff_not_bit)
  then show ?thesis
    using assms(1,2) nz by (simp add: CAN_IRQHandler_def Let_def reg_read_def)
qed

lemmas mb_defs = CAN_IRQHandler_mb_def CAN_IRQHandler_callback_def CAN_ReadMbCs_def
  CAN_ReadMbId_def CAN_ReadMbData_def CAN_WriteMbCs_def CAN_CopyDataFromMb_def
  CAN_GetMbOffset_def reg_read_def reg_write_def Let_def

lemma CAN_IRQHandler_mb_bus:
  "\<exists>acc. bus (CAN_IRQHandler_mb instIdx inst m s) = bus s @ acc \<and>
     (\<forall>a\<in>set acc. fst a = inst \<and>
        access_reg (snd a) \<in> {IFLAG1, RAMn (m * 4), RAMn (m * 4 + 1), RAMn (m * 4 + 2),
          RAMn (m * 4 + 3)})"
  by (simp add: mb_defs)

lemma CAN_IRQHandler_mb_calls:
  "\<exists>ev. calls (CAN_IRQHandler_mb instIdx inst m s) = calls s @ ev \<and> length ev \<le> 1"
  by (simp add: mb_defs)

lemma CAN_IRQHandler_mb_flags:
  "j \<noteq> m \<Longrightarrow> bit (regs (CAN_IRQHandler_mb instIdx inst m s) inst IFLAG1) j =
     bit (regs s inst IFLAG1) j"
  by (auto simp add: mb_defs reg_store_def bit_simps dest: bit_imp_le_length)

lemma CAN_IRQHandler_mb_other_regs:
  "r \<notin> {IFLAG1, RAMn (m * 4)} \<Longrightarrow>
     regs (CAN_IRQHandler_mb instIdx inst m s) inst r = regs s inst r"
  by (auto simp add: mb_defs reg_store_def)

lemma code_byte:
  "(ucast (ucast (drop_bit CAN_CS_CODE_SHIFT (cs AND CAN_CS_CODE_MASK)) :: 8 word) :: 32 word) =
     drop_bit CAN_CS_CODE_SHIFT (cs AND CAN_CS_CODE_MASK)"
  apply (simp only: code_mask_eq CAN_CS_CODE_SHIFT_def)
  apply (rule bit_word_eqI)
  apply (auto simp add: bit_simps)
  done

text \<open>The RX-full branch of the loop body, by its effects.\<close>

lemma CAN_IRQHandler_mb_rx_full:
  fixes instIdx :: nat and inst :: "32 word" and m :: nat and s :: can_state
  assumes code: "drop_bit CAN_CS_CODE_SHIFT (regs s inst (RAMn (m * 4)) AND CAN_CS_CODE_MASK) =
      CAN_CS_CODE_RX_FULL"
    and m: "m < 32"
  defines "s' \<equiv> CAN_IRQHandler_mb instIdx inst m s"
    and "cs \<equiv> regs s inst (RAMn (m * 4))"
  shows "bus s' = bus s @
           [(inst, Read (RAMn (m * 4))), (inst, Read (RAMn (m * 4 + 1))),
            (inst, Read (RAMn (m * 4 + 2))), (inst, Read (RAMn (m * 4 + 3))),
            (inst, Write IFLAG1 (push_bit m 1)),
            (inst, Write (RAMn (m * 4))
               (push_bit CAN_CS_CODE_SHIFT CAN_CS_CODE_RX_EMPTY OR
                (cs AND (CAN_WMBn_CS_IDE_MASK OR CAN_WMBn_CS_RTR_MASK))))]"
    and "regs s' inst (RAMn (m * 4)) =
           push_bit CAN_CS_CODE_SHIFT CAN_CS_CODE_RX_EMPTY OR
                (cs AND (CAN_WMBn_CS_IDE_MASK OR CAN_WMBn_CS_RTR_MASK))"
    and "\<not> bit (regs s' inst IFLAG1) m"
    and "\<exists>d msg. calls s' =
             calls s @ [(the (s_canCallbacks s instIdx), inst, CAN_EVENT_RX_COMPLETE, d)] \<and>
           mbIndex d = m \<and> message d = Some msg \<and>
           dataLength msg =
             (let dlc = (ucast (drop_bit CAN_WMBn_CS_DLC_SHIFT (cs AND CAN_WMBn_CS_DLC_MASK))
                          :: 8 word)
              in if dlc > 8 then 8 else dlc)"
proof -
  have c1: "(ucast (ucast (drop_bit CAN_CS_CODE_SHIFT
               (regs s inst (RAMn (m * 4)) AND CAN_CS_CODE_MASK)) :: 8 word) :: 32 word) =
            CAN_CS_CODE_RX_FULL"
    unfolding code_byte by (rule code)
  have c2: "CAN_CS_CODE_RX_FULL \<noteq> CAN_CS_CODE_TX_INACTIVE"
    by (simp add: can_consts)
  have run: "s' =
      (let (cs, s) = CAN_ReadMbCs inst m s;
           eventData = eventData_zero\<lparr>mbIndex := m\<rparr>;
           dlc = (ucast (drop_bit CAN_WMBn_CS_DLC_SHIFT (cs AND CAN_WMBn_CS_DLC_MASK)) :: 8 word);
           rxMessage = rxMessage_zero\<lparr>dataLength := (if dlc > 8 then 8 else dlc)\<rparr>;
           (idReg, s) = CAN_ReadMbId inst m s;
           rxMessage =
             (if cs AND CAN_WMBn_CS_IDE_MASK \<noteq> 0
              then rxMessage\<lparr>idType := CAN_ID_EXT,
                     msg_id := drop_bit CAN_ID_EXT_SHIFT (idReg AND CAN_ID_EXT_MASK)\<rparr>
              else rxMessage\<lparr>idType := CAN_ID_STD,
                     msg_id := drop_bit CAN_ID_STD_SHIFT (idReg AND CAN_ID_STD_MASK)\<rparr>);
           rxMessage = rxMessage\<lparr>frameType :=
               (if cs AND CAN_WMBn_CS_RTR_MASK \<noteq> 0 then CAN_FRAME_REMOTE else CAN_FRAME_DATA)\<rparr>;
           (dat, s) = CAN_CopyDataFromMb inst m (msg_data rxMessage) (dataLength rxMessage) s;
           rxMessage = rxMessage\<lparr>msg_data := dat\<rparr>;
           eventData = eventData\<lparr>message := Some rxMessage\<rparr>;
           s = reg_write inst IFLAG1 (push_bit m 1) s;
           s = CAN_WriteMbCs inst m
                 (push_bit CAN_CS_CODE_SHIFT CAN_CS_CODE_RX_EMPTY OR
                  (cs AND (CAN_WMBn_CS_IDE_MASK OR CAN_WMBn_CS_RTR_MASK))) s
       in CAN_IRQHandler_callback instIdx inst CAN_EVENT_RX_COMPLETE eventData s)"
    unfolding s'_def CAN_IRQHandler_mb_def
    using c1 c2 by (simp add: CAN_ReadMbCs_def CAN_GetMbOffset_def reg_read_def Let_def)
  note defs = CAN_IRQHandler_callback_def CAN_ReadMbCs_def CAN_ReadMbId_def
    CAN_ReadMbData_def CAN_WriteMbCs_def CAN_CopyDataFromMb_def CAN_GetMbOffset_def
    reg_read_def reg_write_def Let_def
  show "bus s' = bus s @
           [(inst, Read (RAMn (m * 4))), (inst, Read (RAMn (m * 4 + 1))),
            (inst, Read (RAMn (m * 4 + 2))), (inst, Read (RAMn (m * 4 + 3))),
            (inst, Write IFLAG1 (push_bit m 1)),
            (inst, Write (RAMn (m * 4))
               (push_bit CAN_CS_CODE_SHIFT CAN_CS_CODE_RX_EMPTY OR
                (cs AND (CAN_WMBn_CS_IDE_MASK OR CAN_WMBn_CS_RTR_MASK))))]"
    unfolding run cs_def by (simp add: defs)
  show "regs s' inst (RAMn (m * 4)) =
           push_bit CAN_CS_CODE_SHIFT CAN_CS_CODE_RX_EMPTY OR
                (cs AND (CAN_WMBn_CS_IDE_MASK OR CAN_WMBn_CS_RTR_MASK))"
    unfolding run cs_def by (simp add: defs reg_store_def)
  show "\<not> bit (regs s' inst IFLAG1) m"
    unfolding run using m by (simp add: defs reg_store_def bit_simps)
  show "\<exists>d msg. calls s' =
             calls s @ [(the (s_canCallbacks s instIdx), inst, CAN_EVENT_RX_COMPLETE, d)] \<and>
           mbIndex d = m \<and> message d = Some msg \<and>
           dataLength msg =
             (let dlc = (ucast (drop_bit CAN_WMBn_CS_DLC_SHIFT (cs AND CAN_WMBn_CS_DLC_MASK))
                          :: 8 word)
              in if dlc > 8 then 8 else dlc)"
    unfolding run cs_def by (simp add: defs eventData_zero_def)
qed

text \<open>
  C2. With a callback registered and a non-zero \<open>IFLAG1\<close>, there is a lowest pending index
  \<open>m\<close> below 32 such that, after the read of \<open>IFLAG1\<close>, every bus access of the handler goes
  to \<open>IFLAG1\<close> or to one of the four words of mailbox \<open>m\<close>; at most one callback invocation
  is added; the pending flag of every other mailbox is as before; and every register of
  the instance other than \<open>IFLAG1\<close> and the control-status word of mailbox \<open>m\<close> is as before.
  In particular, when bits 3 and 9 are pending with none below 3, mailbox 3 is RX-full and
  mailbox 9 is TX-inactive, exactly one invocation is added, an RX-complete event for
  mailbox 3, and the flag of mailbox 9 is still set.
\<close>

theorem CAN_IRQHandler_first_pending:
  assumes known: "CAN_GetInstanceIndex inst \<noteq> 0xFF"
    and cb: "s_canCallbacks s (CAN_GetInstanceIndex inst) = Some cb"
    and pend: "regs s inst IFLAG1 \<noteq> 0"
  shows "(\<exists>m<32. bit (regs s inst IFLAG1) m \<and> (\<forall>j<m. \<not> bit (regs s inst IFLAG1) j) \<and>
            (\<exists>acc ev. bus (CAN_IRQHandler inst s) = bus s @ (inst, Read IFLAG1) # acc \<and>
               (\<forall>a\<in>set acc. fst a = inst \<and>
                  access_reg (snd a) \<in> {IFLAG1, RAMn (m * 4), RAMn (m * 4 + 1),
                    RAMn (m * 4 + 2), RAMn (m * 4 + 3)}) \<and>
               calls (CAN_IRQHandler inst s) = calls s @ ev \<and> length ev \<le> 1) \<and>
            (\<forall>j. j \<noteq> m \<longrightarrow>
               bit (regs (CAN_IRQHandler inst s) inst IFLAG1) j = bit (regs s inst IFLAG1) j) \<and>
            (\<forall>r. r \<notin> {IFLAG1, RAMn (m * 4)} \<longrightarrow>
               regs (CAN_IRQHandler inst s) inst r = regs s inst r)) \<and>
         (bit (regs s inst IFLAG1) 3 \<and> bit (regs s inst IFLAG1) 9 \<and>
          (\<forall>j<3. \<not> bit (regs s inst IFLAG1) j) \<and>
          drop_bit CAN_CS_CODE_SHIFT (regs s inst (RAMn 12) AND CAN_CS_CODE_MASK) =
            CAN_CS_CODE_RX_FULL \<and>
          drop_bit CAN_CS_CODE_SHIFT (regs s inst (RAMn 36) AND CAN_CS_CODE_MASK) =
            CAN_CS_CODE_TX_INACTIVE \<longrightarrow>
          (\<exists>d. calls (CAN_IRQHandler inst s) = calls s @ [(cb, inst, CAN_EVENT_RX_COMPLETE, d)] \<and>
             mbIndex d = 3) \<and>
          bit (regs (CAN_IRQHandler inst s) inst IFLAG1) 9)"
proof (rule conjI)
  from word_lowest_bit [OF pend] obtain m where m: "m < 32" "bit (regs s inst IFLAG1) m"
    "\<forall>j<m. \<not> bit (regs s inst IFLAG1) j" by blast
  let ?s1 = "s\<lparr>bus := bus s @ [(inst, Read IFLAG1)]\<rparr>"
  have run: "CAN_IRQHandler inst s = CAN_IRQHandler_mb (CAN_GetInstanceIndex inst) inst m ?s1"
    by (rule CAN_IRQHandler_run [OF known cb m])
  from CAN_IRQHandler_mb_bus [of "CAN_GetInstanceIndex inst" inst m ?s1]
  obtain acc where acc: "bus (CAN_IRQHandler inst s) = bus s @ (inst, Read IFLAG1) # acc"
    "\<forall>a\<in>set acc. fst a = inst \<and> access_reg (snd a) \<in> {IFLAG1, RAMn (m * 4), RAMn (m * 4 + 1),
        RAMn (m * 4 + 2), RAMn (m * 4 + 3)}"
    unfolding run by auto
  from CAN_IRQHandler_mb_calls [of "CAN_GetInstanceIndex inst" inst m ?s1]
  obtain ev where ev: "calls (CAN_IRQHandler inst s) = calls s @ ev" "length ev \<le> 1"
    unfolding run by auto
  have fl: "\<forall>j. j \<noteq> m \<longrightarrow>
      bit (regs (CAN_IRQHandler inst s) inst IFLAG1) j = bit (regs s inst IFLAG1) j"
    unfolding run using CAN_IRQHandler_mb_flags [of _ m "CAN_GetInstanceIndex inst" inst ?s1]
    by simp
  have oth: "\<forall>r. r \<notin> {IFLAG1, RAMn (m * 4)} \<longrightarrow>
      regs (CAN_IRQHandler inst s) inst r = regs s inst r"
    unfolding run using CAN_IRQHandler_mb_other_regs [of _ m "CAN_GetInstanceIndex inst" inst ?s1]
    by simp
  show "\<exists>m<32. bit (regs s inst IFLAG1) m \<and> (\<forall>j<m. \<not> bit (regs s inst IFLAG1) j) \<and>
            (\<exists>acc ev. bus (CAN_IRQHandler inst s) = bus s @ (inst, Read IFLAG1) # acc \<and>
               (\<forall>a\<in>set acc. fst a = inst \<and>
                  access_reg (snd a) \<in> {IFLAG1, RAMn (m * 4), RAMn (m * 4 + 1),
                    RAMn (m * 4 + 2), RAMn (m * 4 + 3)}) \<and>
               calls (CAN_IRQHandler inst s) = calls s @ ev \<and> length ev \<le> 1) \<and>
            (\<forall>j. j \<noteq> m \<longrightarrow>
               bit (regs (CAN_IRQHandler inst s) inst IFLAG1) j = bit (regs s inst IFLAG1) j) \<and>
            (\<forall>r. r \<notin> {IFLAG1, RAMn (m * 4)} \<longrightarrow>
               regs (CAN_IRQHandler inst s) inst r = regs s inst r)"
    using m acc ev fl oth by blast
next
  show "bit (regs s inst IFLAG1) 3 \<and> bit (regs s inst IFLAG1) 9 \<and>
          (\<forall>j<3. \<not> bit (regs s inst IFLAG1) j) \<and>
          drop_bit CAN_CS_CODE_SHIFT (regs s inst (RAMn 12) AND CAN_CS_CODE_MASK) =
            CAN_CS_CODE_RX_FULL \<and>
          drop_bit CAN_CS_CODE_SHIFT (regs s inst (RAMn 36) AND CAN_CS_CODE_MASK) =
            CAN_CS_CODE_TX_INACTIVE \<longrightarrow>
          (\<exists>d. calls (CAN_IRQHandler inst s) = calls s @ [(cb, inst, CAN_EVENT_RX_COMPLETE, d)] \<and>
             mbIndex d = 3) \<and>
          bit (regs (CAN_IRQHandler inst s) inst IFLAG1) 9"
  proof (intro impI, elim conjE)
    assume b3: "bit (regs s inst IFLAG1) 3" and b9: "bit (regs s inst IFLAG1) 9"
      and low: "\<forall>j<3. \<not> bit (regs s inst IFLAG1) j"
      and full: "drop_bit CAN_CS_CODE_SHIFT (regs s inst (RAMn 12) AND CAN_CS_CODE_MASK) =
            CAN_CS_CODE_RX_FULL"
    let ?s1 = "s\<lparr>bus := bus s @ [(inst, Read IFLAG1)]\<rparr>"
    have run: "CAN_IRQHandler inst s = CAN_IRQHandler_mb (CAN_GetInstanceIndex inst) inst 3 ?s1"
      by (rule CAN_IRQHandler_run [OF known cb _ b3 low]) simp
    have full1: "drop_bit CAN_CS_CODE_SHIFT (regs ?s1 inst (RAMn (3 * 4)) AND CAN_CS_CODE_MASK) =
            CAN_CS_CODE_RX_FULL"
      using full by simp
    from CAN_IRQHandler_mb_rx_full(4) [OF full1, of "CAN_GetInstanceIndex inst"]
    have "\<exists>d. calls (CAN_IRQHandler inst s) = calls s @ [(cb, inst, CAN_EVENT_RX_COMPLETE, d)] \<and>
             mbIndex d = 3"
      unfolding run using cb by auto
    moreover have "bit (regs (CAN_IRQHandler inst s) inst IFLAG1) 9"
      unfolding run using CAN_IRQHandler_mb_flags [of 9 3 "CAN_GetInstanceIndex inst" inst ?s1] b9
      by simp
    ultimately show "(\<exists>d. calls (CAN_IRQHandler inst s) =
          calls s @ [(cb, inst, CAN_EVENT_RX_COMPLETE, d)] \<and> mbIndex d = 3) \<and>
        bit (regs (CAN_IRQHandler inst s) inst IFLAG1) 9"
      by blast
  qed
qed

theorem CAN_IRQHandler_first_pending_witness:
  "CAN_GetInstanceIndex CAN0 \<noteq> 0xFF \<and>
   s_canCallbacks state_irq (CAN_GetInstanceIndex CAN0) = Some 7 \<and>
   regs state_irq CAN0 IFLAG1 \<noteq> 0 \<and>
   bit (regs state_irq CAN0 IFLAG1) 3 \<and> bit (regs state_irq CAN0 IFLAG1) 9 \<and>
   \<not> bit (regs state_irq CAN0 IFLAG1) 0 \<and> \<not> bit (regs state_irq CAN0 IFLAG1) 1 \<and>
   \<not> bit (regs state_irq CAN0 IFLAG1) 2 \<and>
   drop_bit CAN_CS_CODE_SHIFT (regs state_irq CAN0 (RAMn 12) AND CAN_CS_CODE_MASK) =
     CAN_CS_CODE_RX_FULL \<and>
   drop_bit CAN_CS_CODE_SHIFT (regs state_irq CAN0 (RAMn 36) AND CAN_CS_CODE_MASK) =
     CAN_CS_CODE_TX_INACTIVE \<and>
   (\<exists>d. calls (CAN_IRQHandler CAN0 state_irq) =
      calls state_irq @ [(7, CAN0, CAN_EVENT_RX_COMPLETE, d)] \<and> mbIndex d = 3) \<and>
   bit (regs (CAN_IRQHandler CAN0 state_irq) CAN0 IFLAG1) 9 \<and>
   calls (CAN_IRQHandler CAN0 state_irq) =
     [(7, CAN0, CAN_EVENT_RX_COMPLETE,
       \<lparr>mbIndex = 3,
        message = Some \<lparr>msg_id = 0x123, idType = CAN_ID_STD, frameType = CAN_FRAME_DATA,
          dataLength = 8, msg_data = [1, 2, 3, 4, 5, 6, 7, 8]\<rparr>,
        errorFlags = 0\<rparr>)] \<and>
   regs (CAN_IRQHandler CAN0 state_irq) CAN0 IFLAG1 = 0x200"
proof -
  have h1: "CAN_GetInstanceIndex CAN0 \<noteq> 0xFF"
    by (simp add: CAN_GetInstanceIndex_def)
  have h2: "s_canCallbacks state_irq (CAN_GetInstanceIndex CAN0) = Some 7"
    by (simp add: CAN_GetInstanceIndex_def state_irq_def)
  have h3: "regs state_irq CAN0 IFLAG1 \<noteq> 0"
    by (simp add: state_irq_def state_pending_def can_state_reset_def)
  have sc: "bit (regs state_irq CAN0 IFLAG1) 3 \<and> bit (regs state_irq CAN0 IFLAG1) 9 \<and>
      (\<forall>j<3. \<not> bit (regs state_irq CAN0 IFLAG1) j) \<and>
      drop_bit CAN_CS_CODE_SHIFT (regs state_irq CAN0 (RAMn 12) AND CAN_CS_CODE_MASK) =
        CAN_CS_CODE_RX_FULL \<and>
      drop_bit CAN_CS_CODE_SHIFT (regs state_irq CAN0 (RAMn 36) AND CAN_CS_CODE_MASK) =
        CAN_CS_CODE_TX_INACTIVE"
    by (auto simp add: state_irq_def state_pending_def can_state_reset_def less_Suc_eq
        numeral_3_eq_3 can_consts)
  have c: "calls (CAN_IRQHandler CAN0 state_irq) =
     [(7, CAN0, CAN_EVENT_RX_COMPLETE,
       \<lparr>mbIndex = 3,
        message = Some \<lparr>msg_id = 0x123, idType = CAN_ID_STD, frameType = CAN_FRAME_DATA,
          dataLength = 8, msg_data = [1, 2, 3, 4, 5, 6, 7, 8]\<rparr>,
        errorFlags = 0\<rparr>)]"
    by code_simp
  have f: "regs (CAN_IRQHandler CAN0 state_irq) CAN0 IFLAG1 = 0x200"
    by code_simp
  from CAN_IRQHandler_first_pending [OF h1 h2 h3] sc
  have "(\<exists>d. calls (CAN_IRQHandler CAN0 state_irq) =
      calls state_irq @ [(7, CAN0, CAN_EVENT_RX_COMPLETE, d)] \<and> mbIndex d = 3) \<and>
   bit (regs (CAN_IRQHandler CAN0 state_irq) CAN0 IFLAG1) 9"
    by blast
  moreover have "\<not> bit (regs state_irq CAN0 IFLAG1) 0 \<and> \<not> bit (regs state_irq CAN0 IFLAG1) 1 \<and>
      \<not> bit (regs state_irq CAN0 IFLAG1) 2"
    using sc by simp
  ultimately show ?thesis using h1 h2 h3 sc c f by blast
qed









subsection \<open>Round trip of a message through a mailbox\<close>



lemma ff_eq: "(0xFF :: 32 word) = mask 8"
  by (simp add: mask_eq_exp_minus_1)

lemma unpack_byte0:
  fixes a b c d :: "8 word"
  shows "(ucast (drop_bit 24 (push_bit 24 (ucast a) OR push_bit 16 (ucast b) OR
             push_bit 8 (ucast c) OR (ucast d :: 32 word)) AND 0xFF) :: 8 word) = a"
  apply (simp only: ff_eq)
  apply (rule bit_word_eqI)
  apply (simp only: bit_simps o_apply)
  apply (auto simp add: possible_bit_word dest: bit_imp_le_length)
  done

lemma unpack_byte1:
  fixes a b c d :: "8 word"
  shows "(ucast (drop_bit 16 (push_bit 24 (ucast a) OR push_bit 16 (ucast b) OR
             push_bit 8 (ucast c) OR (ucast d :: 32 word)) AND 0xFF) :: 8 word) = b"
  apply (simp only: ff_eq)
  apply (rule bit_word_eqI)
  apply (simp only: bit_simps o_apply)
  apply (auto simp add: possible_bit_word dest: bit_imp_le_length)
  done

lemma unpack_byte2:
  fixes a b c d :: "8 word"
  shows "(ucast (drop_bit 8 (push_bit 24 (ucast a) OR push_bit 16 (ucast b) OR
             push_bit 8 (ucast c) OR (ucast d :: 32 word)) AND 0xFF) :: 8 word) = c"
  apply (simp only: ff_eq)
  apply (rule bit_word_eqI)
  apply (simp only: bit_simps o_apply)
  apply (auto simp add: possible_bit_word dest: bit_imp_le_length)
  done

lemma unpack_byte3:
  fixes a b c d :: "8 word"
  shows "(ucast ((push_bit 24 (ucast a) OR push_bit 16 (ucast b) OR
             push_bit 8 (ucast c) OR (ucast d :: 32 word)) AND 0xFF) :: 8 word) = d"
  apply (simp only: ff_eq)
  apply (rule bit_word_eqI)
  apply (simp only: bit_simps o_apply)
  apply (auto simp add: possible_bit_word dest: bit_imp_le_length)
  done

lemma list8:
  assumes "length xs = 8"
  shows "[xs ! 0, xs ! 1, xs ! 2, xs ! 3, xs ! 4, xs ! 5, xs ! 6, xs ! 7] = xs"
  using assms by (auto simp add: list_eq_iff_nth_eq less_Suc_eq numeral_eq_Suc)



lemma dl_bits:
  assumes "(dl :: 8 word) \<le> 8" and "bit dl n"
  shows "n < 4"
proof -
  have "dl < 2 ^ 4" using assms(1) by (simp add: word_less_nat_alt word_le_nat_alt)
  then have "dl AND mask 4 = dl" by (rule less_mask_eq)
  then have "bit (dl AND mask 4) n" using assms(2) by simp
  then show ?thesis by (simp add: bit_simps)
qed

lemma id_bits:
  assumes "(x :: 32 word) < 2 ^ k" and "bit x n"
  shows "n < k"
proof -
  have "x AND mask k = x" using assms(1) by (rule less_mask_eq)
  then have "bit (x AND mask k) n" using assms(2) by simp
  then show ?thesis by (simp add: bit_simps)
qed

lemma CAN_Send_cs_ide:
  assumes "dataLength m \<le> 8"
  shows "bit (CAN_Send_cs m) 21 \<longleftrightarrow> idType m = CAN_ID_EXT"
proof -
  have "\<not> bit (dataLength m) 5" using dl_bits [OF assms, of 5] by auto
  then show ?thesis
  by (cases "idType m"; cases "frameType m")
    (simp_all add: CAN_Send_cs_def Let_def tx_data_eq ide_eq rtr_eq srr_eq
      CAN_CS_CODE_SHIFT_def CAN_WMBn_CS_DLC_SHIFT_def bit_simps)
qed

lemma CAN_Send_cs_rtr:
  assumes "dataLength m \<le> 8"
  shows "bit (CAN_Send_cs m) 20 \<longleftrightarrow> frameType m = CAN_FRAME_REMOTE"
proof -
  have "\<not> bit (dataLength m) 4" using dl_bits [OF assms, of 4] by auto
  then show ?thesis
  by (cases "idType m"; cases "frameType m")
    (simp_all add: CAN_Send_cs_def Let_def tx_data_eq ide_eq rtr_eq srr_eq
      CAN_CS_CODE_SHIFT_def CAN_WMBn_CS_DLC_SHIFT_def bit_simps)
qed


lemma CAN_Send_cs_dlc:
  assumes "dataLength m \<le> 8"
  shows "(ucast (drop_bit CAN_WMBn_CS_DLC_SHIFT (CAN_Send_cs m AND CAN_WMBn_CS_DLC_MASK)) :: 8 word) =
    dataLength m"
proof -
  have b: "\<And>n. bit (dataLength m) n \<Longrightarrow> n < 4" using dl_bits [OF assms] .
  show ?thesis
    by (cases "idType m"; cases "frameType m";
        simp only: CAN_Send_cs_def Let_def tx_data_eq ide_eq rtr_eq srr_eq dlc_eq
          CAN_CS_CODE_SHIFT_def CAN_WMBn_CS_DLC_SHIFT_def if_True if_False
          can_id_type_t.simps can_frame_type_t.simps refl;
        rule bit_word_eqI; simp only: bit_simps o_apply;
        auto simp add: possible_bit_word dest: b bit_imp_le_length)
qed

lemma std_mask_eq: "CAN_ID_STD_MASK = push_bit 18 (mask 11)"
  by (simp add: CAN_ID_STD_MASK_def mask_eq_exp_minus_1)

lemma ext_mask_eq: "CAN_ID_EXT_MASK = mask 29"
  by (simp add: CAN_ID_EXT_MASK_def mask_eq_exp_minus_1)

lemma id_std_roundtrip:
  assumes "(x :: 32 word) \<le> 0x7FF"
  shows "drop_bit CAN_ID_STD_SHIFT
           ((push_bit CAN_ID_STD_SHIFT x AND CAN_ID_STD_MASK) AND CAN_ID_STD_MASK) = x"
proof -
  have "x < 2 ^ 11" using assms by (simp add: word_less_nat_alt word_le_nat_alt)
  then have b: "\<And>n. bit x n \<Longrightarrow> n < 11" by (rule id_bits)
  show ?thesis
    apply (simp only: std_mask_eq CAN_ID_STD_SHIFT_def)
    apply (rule bit_word_eqI)
    apply (simp only: bit_simps o_apply)
    apply (auto simp add: possible_bit_word dest: b)
    done
qed

lemma id_ext_roundtrip:
  assumes "(x :: 32 word) \<le> 0x1FFFFFFF"
  shows "drop_bit CAN_ID_EXT_SHIFT
           ((push_bit CAN_ID_EXT_SHIFT x AND CAN_ID_EXT_MASK) AND CAN_ID_EXT_MASK) = x"
proof -
  have "x < 2 ^ 29" using assms by (simp add: word_less_nat_alt word_le_nat_alt)
  then have b: "\<And>n. bit x n \<Longrightarrow> n < 29" by (rule id_bits)
  show ?thesis
    apply (simp only: ext_mask_eq CAN_ID_EXT_SHIFT_def)
    apply (rule bit_word_eqI)
    apply (simp only: bit_simps o_apply)
    apply (auto simp add: possible_bit_word dest: b)
    done
qed


lemma CAN_Send_cs_ide_mask:
  assumes "dataLength m \<le> 8"
  shows "(CAN_Send_cs m AND CAN_WMBn_CS_IDE_MASK \<noteq> 0) = (idType m = CAN_ID_EXT)"
proof -
  have e: "CAN_WMBn_CS_IDE_MASK = 2 ^ 21" by (simp add: CAN_WMBn_CS_IDE_MASK_def)
  show ?thesis unfolding e and_exp_eq_0_iff_not_bit using CAN_Send_cs_ide [OF assms] by simp
qed

lemma CAN_Send_cs_rtr_mask:
  assumes "dataLength m \<le> 8"
  shows "(CAN_Send_cs m AND CAN_WMBn_CS_RTR_MASK \<noteq> 0) = (frameType m = CAN_FRAME_REMOTE)"
proof -
  have e: "CAN_WMBn_CS_RTR_MASK = 2 ^ 20" by (simp add: CAN_WMBn_CS_RTR_MASK_def)
  show ?thesis unfolding e and_exp_eq_0_iff_not_bit using CAN_Send_cs_rtr [OF assms] by simp
qed

lemma unpack_msg_id:
  "msg_id (CAN_Receive_unpack cs idw d0 d1 out) =
     (if cs AND CAN_WMBn_CS_IDE_MASK \<noteq> 0
      then drop_bit CAN_ID_EXT_SHIFT (idw AND CAN_ID_EXT_MASK)
      else drop_bit CAN_ID_STD_SHIFT (idw AND CAN_ID_STD_MASK))"
  by (simp add: CAN_Receive_unpack_def Let_def)

lemma CAN_Receive_unpack_Send:
  assumes len: "length (msg_data m) = 8" and dl: "dataLength m \<le> 8"
    and idr: "(idType m = CAN_ID_STD \<and> msg_id m \<le> 0x7FF) \<or>
              (idType m = CAN_ID_EXT \<and> msg_id m \<le> 0x1FFFFFFF)"
  shows "CAN_Receive_unpack (CAN_Send_cs m) (CAN_Send_id m) (CAN_Send_data0 m)
           (CAN_Send_data1 m) out = m"
proof (rule can_message_t.equality)
  note u = CAN_Receive_unpack_def Let_def CAN_Send_cs_ide_mask [OF dl]
    CAN_Send_cs_rtr_mask [OF dl]
  show "msg_id (CAN_Receive_unpack (CAN_Send_cs m) (CAN_Send_id m) (CAN_Send_data0 m)
           (CAN_Send_data1 m) out) = msg_id m"
  proof (cases "idType m")
    case CAN_ID_STD
    then have r: "msg_id m \<le> 0x7FF" using idr by auto
    show ?thesis
      using CAN_ID_STD
      by (simp only: unpack_msg_id CAN_Send_cs_ide_mask [OF dl] CAN_Send_id_def
          id_std_roundtrip [OF r] can_id_type_t.simps if_True if_False refl)
  next
    case CAN_ID_EXT
    then have r: "msg_id m \<le> 0x1FFFFFFF" using idr by auto
    show ?thesis
      using CAN_ID_EXT
      by (simp only: unpack_msg_id CAN_Send_cs_ide_mask [OF dl] CAN_Send_id_def
          id_ext_roundtrip [OF r] can_id_type_t.simps if_True if_False refl)
  qed
  show "idType (CAN_Receive_unpack (CAN_Send_cs m) (CAN_Send_id m) (CAN_Send_data0 m)
           (CAN_Send_data1 m) out) = idType m"
    by (cases "idType m") (simp_all add: u)
  show "frameType (CAN_Receive_unpack (CAN_Send_cs m) (CAN_Send_id m) (CAN_Send_data0 m)
           (CAN_Send_data1 m) out) = frameType m"
    by (cases "frameType m") (simp_all add: u)
  show "dataLength (CAN_Receive_unpack (CAN_Send_cs m) (CAN_Send_id m) (CAN_Send_data0 m)
           (CAN_Send_data1 m) out) = dataLength m"
    using CAN_Send_cs_dlc [OF dl] by (simp add: u)
  show "msg_data (CAN_Receive_unpack (CAN_Send_cs m) (CAN_Send_id m) (CAN_Send_data0 m)
           (CAN_Send_data1 m) out) = msg_data m"
    unfolding CAN_Receive_unpack_def Let_def CAN_Send_data0_def CAN_Send_data1_def
    by (simp only: unpack_byte0 unpack_byte1 unpack_byte2 unpack_byte3 list8 [OF len]) simp
qed simp


lemma CAN_Receive_run:
  assumes "inst < CAN_INSTANCE_COUNT" and "s_canInitialized s inst"
    and "CAN_RX_MB_START \<le> mbIdx" and "mbIdx < CAN_MB_COUNT"
    and "bit (regs s (s_canBases inst) IFLAG1) mbIdx"
  shows "fst (CAN_Receive inst mbIdx (Some out) s) = STATUS_SUCCESS"
    and "fst (snd (CAN_Receive inst mbIdx (Some out) s)) =
          Some (CAN_Receive_unpack (regs s (s_canBases inst) (RAMn (mbIdx * 4)))
                  (regs s (s_canBases inst) (RAMn (mbIdx * 4 + 1)))
                  (regs s (s_canBases inst) (RAMn (mbIdx * 4 + 2)))
                  (regs s (s_canBases inst) (RAMn (mbIdx * 4 + 3))) out)"
  using assms
  by (simp_all add: CAN_Receive_def Let_def reg_read_def and_exp_eq_0_iff_not_bit not_le
      not_less MSG_BUF_SIZE_def)

lemma CAN_Send_mailbox:
  assumes "inst < CAN_INSTANCE_COUNT" and "s_canInitialized s inst"
    and "CAN_TX_MB_START \<le> mbIdx" and "mbIdx < CAN_TX_MB_START + CAN_TX_MB_COUNT"
    and "dataLength m \<le> CAN_MAX_DATA_LENGTH"
  shows "regs (snd (CAN_Send inst mbIdx (Some m) s)) (s_canBases inst) (RAMn (mbIdx * 4)) =
           CAN_Send_cs m"
    and "regs (snd (CAN_Send inst mbIdx (Some m) s)) (s_canBases inst) (RAMn (mbIdx * 4 + 1)) =
           CAN_Send_id m"
    and "regs (snd (CAN_Send inst mbIdx (Some m) s)) (s_canBases inst) (RAMn (mbIdx * 4 + 2)) =
           CAN_Send_data0 m"
    and "regs (snd (CAN_Send inst mbIdx (Some m) s)) (s_canBases inst) (RAMn (mbIdx * 4 + 3)) =
           CAN_Send_data1 m"
  by (simp_all add: CAN_Send_run [OF assms] reg_write_def reg_store_def)

text \<open>
  C5. For a message with eight payload bytes, \<open>dataLength\<close> at most 8 and an identifier in
  the range of its type (standard up to 0x7FF, extended up to 0x1FFFFFFF), decoding the
  four words that \<open>CAN_Send\<close> packs gives the message back: the same identifier, identifier
  type, frame type, data length and payload bytes. Through the functions themselves: when
  \<open>CAN_Send\<close> has written the message into a TX mailbox and an RX mailbox with its flag
  pending holds the same four words, \<open>CAN_Receive\<close> on it succeeds and returns the message.
\<close>

theorem CAN_Send_Receive_roundtrip:
  assumes len: "length (msg_data m) = 8" and dl: "dataLength m \<le> 8"
    and idr: "(idType m = CAN_ID_STD \<and> msg_id m \<le> 0x7FF) \<or>
              (idType m = CAN_ID_EXT \<and> msg_id m \<le> 0x1FFFFFFF)"
    and tx: "tinst < CAN_INSTANCE_COUNT" "s_canInitialized s tinst"
      "CAN_TX_MB_START \<le> tx" "tx < CAN_TX_MB_START + CAN_TX_MB_COUNT"
    and rx: "rinst < CAN_INSTANCE_COUNT" "s_canInitialized r rinst"
      "CAN_RX_MB_START \<le> rx" "rx < CAN_MB_COUNT" "bit (regs r (s_canBases rinst) IFLAG1) rx"
    and frame:
      "regs r (s_canBases rinst) (RAMn (rx * 4)) =
         regs (snd (CAN_Send tinst tx (Some m) s)) (s_canBases tinst) (RAMn (tx * 4))"
      "regs r (s_canBases rinst) (RAMn (rx * 4 + 1)) =
         regs (snd (CAN_Send tinst tx (Some m) s)) (s_canBases tinst) (RAMn (tx * 4 + 1))"
      "regs r (s_canBases rinst) (RAMn (rx * 4 + 2)) =
         regs (snd (CAN_Send tinst tx (Some m) s)) (s_canBases tinst) (RAMn (tx * 4 + 2))"
      "regs r (s_canBases rinst) (RAMn (rx * 4 + 3)) =
         regs (snd (CAN_Send tinst tx (Some m) s)) (s_canBases tinst) (RAMn (tx * 4 + 3))"
  shows "CAN_Receive_unpack (CAN_Send_cs m) (CAN_Send_id m) (CAN_Send_data0 m)
           (CAN_Send_data1 m) out = m \<and>
         fst (CAN_Send tinst tx (Some m) s) = STATUS_SUCCESS \<and>
         fst (CAN_Receive rinst rx (Some out) r) = STATUS_SUCCESS \<and>
         fst (snd (CAN_Receive rinst rx (Some out) r)) = Some m"
proof -
  have dl': "dataLength m \<le> CAN_MAX_DATA_LENGTH"
    using dl by (simp add: CAN_MAX_DATA_LENGTH_def)
  note sent = CAN_Send_mailbox [OF tx dl']
  have pure: "CAN_Receive_unpack (CAN_Send_cs m) (CAN_Send_id m) (CAN_Send_data0 m)
           (CAN_Send_data1 m) out = m"
    by (rule CAN_Receive_unpack_Send [OF len dl idr])
  have "fst (snd (CAN_Receive rinst rx (Some out) r)) = Some m"
    unfolding CAN_Receive_run(2) [OF rx] frame sent pure ..
  then show ?thesis
    using pure CAN_Receive_run(1) [OF rx] CAN_Send_run [OF tx dl'] by simp
qed

theorem CAN_Send_Receive_roundtrip_witness:
  "length (msg_data msg_example) = 8 \<and> dataLength msg_example \<le> 8 \<and>
   idType msg_example = CAN_ID_STD \<and> msg_id msg_example \<le> 0x7FF \<and>
   s_canInitialized state_ready 0 \<and> s_canInitialized state_loopback 0 \<and>
   bit (regs state_loopback (s_canBases 0) IFLAG1) 16 \<and>
   regs state_loopback (s_canBases 0) (RAMn (16 * 4)) =
     regs (snd (CAN_Send 0 8 (Some msg_example) state_ready)) (s_canBases 0) (RAMn (8 * 4)) \<and>
   regs state_loopback (s_canBases 0) (RAMn (16 * 4 + 1)) =
     regs (snd (CAN_Send 0 8 (Some msg_example) state_ready)) (s_canBases 0) (RAMn (8 * 4 + 1)) \<and>
   regs state_loopback (s_canBases 0) (RAMn (16 * 4 + 2)) =
     regs (snd (CAN_Send 0 8 (Some msg_example) state_ready)) (s_canBases 0) (RAMn (8 * 4 + 2)) \<and>
   regs state_loopback (s_canBases 0) (RAMn (16 * 4 + 3)) =
     regs (snd (CAN_Send 0 8 (Some msg_example) state_ready)) (s_canBases 0) (RAMn (8 * 4 + 3)) \<and>
   fst (CAN_Send 0 8 (Some msg_example) state_ready) = STATUS_SUCCESS \<and>
   fst (CAN_Receive 0 16 (Some rxMessage_zero) state_loopback) = STATUS_SUCCESS \<and>
   fst (snd (CAN_Receive 0 16 (Some rxMessage_zero) state_loopback)) = Some msg_example"
proof -
  have a: "length (msg_data msg_example) = 8" "dataLength msg_example \<le> 8"
    "idType msg_example = CAN_ID_STD" "msg_id msg_example \<le> 0x7FF"
    by (simp_all add: msg_example_def)
  have t: "(0::nat) < CAN_INSTANCE_COUNT" "s_canInitialized state_ready 0"
    "CAN_TX_MB_START \<le> 8" "8 < CAN_TX_MB_START + CAN_TX_MB_COUNT"
    by (simp_all add: can_consts state_ready_def)
  have r: "(0::nat) < CAN_INSTANCE_COUNT" "s_canInitialized state_loopback 0"
    "CAN_RX_MB_START \<le> 16" "16 < CAN_MB_COUNT"
    "bit (regs state_loopback (s_canBases 0) IFLAG1) 16"
    by (simp_all add: can_consts state_loopback_def can_state_reset_def s_canBases_def)
  have f: "regs state_loopback (s_canBases 0) (RAMn (16 * 4)) =
     regs (snd (CAN_Send 0 8 (Some msg_example) state_ready)) (s_canBases 0) (RAMn (8 * 4))"
   "regs state_loopback (s_canBases 0) (RAMn (16 * 4 + 1)) =
     regs (snd (CAN_Send 0 8 (Some msg_example) state_ready)) (s_canBases 0) (RAMn (8 * 4 + 1))"
   "regs state_loopback (s_canBases 0) (RAMn (16 * 4 + 2)) =
     regs (snd (CAN_Send 0 8 (Some msg_example) state_ready)) (s_canBases 0) (RAMn (8 * 4 + 2))"
   "regs state_loopback (s_canBases 0) (RAMn (16 * 4 + 3)) =
     regs (snd (CAN_Send 0 8 (Some msg_example) state_ready)) (s_canBases 0) (RAMn (8 * 4 + 3))"
    by code_simp+
  from a(3,4) have i: "(idType msg_example = CAN_ID_STD \<and> msg_id msg_example \<le> 0x7FF) \<or>
              (idType msg_example = CAN_ID_EXT \<and> msg_id msg_example \<le> 0x1FFFFFFF)"
    by simp
  from CAN_Send_Receive_roundtrip [OF a(1,2) i t r f, of rxMessage_zero]
  show ?thesis using a t r f by simp
qed

subsection \<open>Evaluations of the bit timing, the blocking receive and the filter\<close>

text \<open>
  C4, evaluated at a clock of 40 MHz and a bit rate of 500 kbit/s. The prescaler computed
  for 16 quanta is 4, but \<open>CAN_CalculateTiming\<close> returns \<open>preDiv = 0\<close>, because the second
  assignment to \<open>timing->preDiv\<close> overwrites the first; and the segments it returns are 6,
  3 and 3, so that \<open>1 + propSeg + phaseSeg1 + phaseSeg2\<close> is 13 and not 16.
\<close>

theorem CAN_CalculateTiming_500k:
  "CAN_CalculateTiming 40000000 500000 (Some timing_local) =
     Inr (STATUS_SUCCESS,
          Some \<lparr>propSeg = 6, phaseSeg1 = 3, phaseSeg2 = 3, rJumpWidth = 3, preDiv = 0\<rparr>) \<and>
   (40000000 :: 32 word) div (500000 * 16) - 1 = 4"
  by (simp add: CAN_CalculateTiming_def CAN_CalculateTiming_fill_def timing_local_def Let_def)

text \<open>
  The same for every input: whenever \<open>CAN_CalculateTiming\<close> succeeds, the prescaler it
  returns is 0 and the segments are 6, 3 and 3; and it does succeed when the prescaler
  computed for 16 quanta, in \<open>uint32_t\<close> arithmetic, is at most 255.
\<close>

lemma CAN_CalculateTiming_success_fixed:
  assumes "CAN_CalculateTiming clk baud (Some t) = Inr (STATUS_SUCCESS, Some t')"
  shows "preDiv t' = 0 \<and> propSeg t' = 6 \<and> phaseSeg1 t' = 3 \<and> phaseSeg2 t' = 3 \<and>
         rJumpWidth t' = 3"
  using assms
  by (auto simp add: CAN_CalculateTiming_def CAN_CalculateTiming_fill_def Let_def
      split: if_splits)

lemma CAN_CalculateTiming_succeeds:
  assumes "clk \<noteq> 0" and "baud \<noteq> 0" and "baud * 16 \<noteq> 0"
    and "clk div (baud * 16) - 1 \<le> 255"
  shows "\<exists>t'. CAN_CalculateTiming clk baud (Some t) = Inr (STATUS_SUCCESS, Some t')"
  using assms by (simp add: CAN_CalculateTiming_def Let_def not_less)

lemma hw_step_idle: "hw_step hw_idle s = s"
  by (simp add: hw_step_def hw_idle_def)

lemma CAN_ReceiveBlocking_wait_idle:
  "regs s (s_canBases inst) IFLAG1 AND push_bit mbIdx 1 = 0 \<Longrightarrow>
   CAN_ReceiveBlocking_wait hw_idle inst mbIdx msg n s =
     (STATUS_TIMEOUT, msg, s\<lparr>bus := bus s @ replicate n (s_canBases inst, Read IFLAG1)\<rparr>)"
proof (induction n arbitrary: s)
  case 0
  then show ?case by simp
next
  case (Suc n)
  let ?s1 = "s\<lparr>bus := bus s @ [(s_canBases inst, Read IFLAG1)]\<rparr>"
  have "CAN_ReceiveBlocking_wait hw_idle inst mbIdx msg (Suc n) s =
      CAN_ReceiveBlocking_wait hw_idle inst mbIdx msg n ?s1"
    using Suc.prems by (simp add: hw_step_idle reg_read_def)
  also have "\<dots> = (STATUS_TIMEOUT, msg,
      ?s1\<lparr>bus := bus ?s1 @ replicate n (s_canBases inst, Read IFLAG1)\<rparr>)"
    using Suc.prems by (intro Suc.IH) simp
  finally show ?case by (simp add: replicate_app_Cons_same)
qed

text \<open>
  \<open>CAN_ReceiveBlocking\<close> does not check the mailbox index before it polls. On the
  initialised instance 0 with mailbox index 8, which is outside the RX range 16..31, a
  timeout of 1 ms and no flag pending, it reads \<open>IFLAG1\<close> a thousand times and returns
  \<open>STATUS_TIMEOUT\<close>. \<open>CAN_Receive\<close> with the same arguments returns
  \<open>STATUS_INVALID_PARAM\<close> and touches no register.
\<close>

lemma CAN_ReceiveBlocking_tx_mailbox:
  "CAN_ReceiveBlocking hw_idle 0 8 (Some msg_example) 1 state_ready =
     Inr (STATUS_TIMEOUT, Some msg_example,
          state_ready\<lparr>bus := replicate 1000 (CAN0, Read IFLAG1)\<rparr>) \<and>
   CAN_Receive 0 8 (Some msg_example) state_ready =
     (STATUS_INVALID_PARAM, Some msg_example, state_ready)"
proof -
  have z: "regs state_ready (s_canBases 0) IFLAG1 AND push_bit 8 1 = 0"
    by (simp add: state_ready_def can_state_reset_def)
  have i: "s_canInitialized state_ready 0" "bus state_ready = []"
    by (simp_all add: state_ready_def can_state_reset_def)
  have n: "unat ((1 :: 32 word) * 1000) = 1000" by simp
  show ?thesis
    unfolding CAN_ReceiveBlocking_def n
    using i CAN_ReceiveBlocking_wait_idle [OF z, of "Some msg_example" 1000]
    by (simp add: CAN_INSTANCE_COUNT_def s_canBases_def CAN_Receive_def CAN_RX_MB_START_def)
qed

text \<open>
  C9, evaluated for the filter with identifier 0x200 and mask 0x700 on mailbox 16.
  \<open>CAN_ConfigRxFilter\<close> shifts the identifier into bits 18..28 of the ID word but stores the
  mask unshifted, so the mask register selects bits 8..10, where the ID word of every
  standard frame is 0: the frame with identifier 0x300 is accepted under the matching rule.
\<close>

theorem CAN_ConfigRxFilter_mask_unshifted:
  "fst (CAN_ConfigRxFilter 0 16 (Some filter_example) state_ready) = STATUS_SUCCESS \<and>
   regs (snd (CAN_ConfigRxFilter 0 16 (Some filter_example) state_ready)) CAN0 (RXIMR 16) =
     0x700 \<and>
   regs (snd (CAN_ConfigRxFilter 0 16 (Some filter_example) state_ready)) CAN0 (RAMn 65) =
     0x08000000 \<and>
   CAN_Send_id (msg_example\<lparr>msg_id := 0x300\<rparr>) = 0x0C000000 \<and>
   mb_accepts
     (regs (snd (CAN_ConfigRxFilter 0 16 (Some filter_example) state_ready)) CAN0 (RXIMR 16))
     (regs (snd (CAN_ConfigRxFilter 0 16 (Some filter_example) state_ready)) CAN0 (RAMn 65))
     (CAN_Send_id (msg_example\<lparr>msg_id := 0x300\<rparr>))"
  by code_simp

text \<open>
  The same for every input: a standard filter whose mask lies in the 11 identifier bits
  accepts every standard frame, whatever its identifier.
\<close>

lemma CAN_ConfigRxFilter_std_accepts_all:
  assumes "inst < CAN_INSTANCE_COUNT" and "s_canInitialized s inst"
    and "CAN_RX_MB_START \<le> mbIdx" and "mbIdx < CAN_MB_COUNT"
    and "filter_idType f = CAN_ID_STD" and "filter_mask f \<le> 0x7FF"
    and "idType m = CAN_ID_STD"
  shows "mb_accepts
           (regs (snd (CAN_ConfigRxFilter inst mbIdx (Some f) s)) (s_canBases inst) (RXIMR mbIdx))
           (regs (snd (CAN_ConfigRxFilter inst mbIdx (Some f) s)) (s_canBases inst)
              (RAMn (mbIdx * 4 + 1)))
           (CAN_Send_id m)"
proof -
  have r1: "regs (snd (CAN_ConfigRxFilter inst mbIdx (Some f) s)) (s_canBases inst) (RXIMR mbIdx) =
      filter_mask f"
    using assms(1-4)
    by (simp add: CAN_ConfigRxFilter_def Let_def reg_write_def reg_read_def reg_store_def
        not_le not_less)
  have r2: "regs (snd (CAN_ConfigRxFilter inst mbIdx (Some f) s)) (s_canBases inst)
      (RAMn (mbIdx * 4 + 1)) = push_bit CAN_ID_STD_SHIFT (filter_id f) AND CAN_ID_STD_MASK"
    using assms(1-5)
    by (simp add: CAN_ConfigRxFilter_def Let_def reg_write_def reg_read_def reg_store_def
        not_le not_less MSG_BUF_SIZE_def)
  have "filter_mask f < 2 ^ 11"
    using assms(6) by (simp add: word_less_nat_alt word_le_nat_alt)
  then have b: "\<And>n. bit (filter_mask f) n \<Longrightarrow> n < 11" by (rule id_bits)
  have z: "\<And>x. (push_bit CAN_ID_STD_SHIFT x AND CAN_ID_STD_MASK) AND filter_mask f = 0"
    apply (simp only: std_mask_eq CAN_ID_STD_SHIFT_def)
    apply (rule bit_word_eqI)
    apply (simp only: bit_simps o_apply)
    apply (auto simp add: possible_bit_word dest: b)
    done
  show ?thesis
    unfolding mb_accepts_def r1 r2 CAN_Send_id_def using assms(7)
    by (simp only: z if_True refl)
qed

subsection \<open>Uninitialised instances\<close>



lemma reg_read_initialized [simp]:
  "s_canInitialized (snd (reg_read base r s)) = s_canInitialized s"
  by (simp add: reg_read_def)

lemma reg_write_initialized [simp]:
  "s_canInitialized (reg_write base r v s) = s_canInitialized s"
  by (simp add: reg_write_def)

lemma hw_step_initialized [simp]:
  "s_canInitialized (hw_step hw s) = s_canInitialized s"
  by (simp add: hw_step_def)

lemma reg_set_initialized [simp]:
  "s_canInitialized (reg_set base r v s) = s_canInitialized s"
  by (simp add: reg_set_def split_def Let_def)

lemma reg_clear_initialized [simp]:
  "s_canInitialized (reg_clear base r v s) = s_canInitialized s"
  by (simp add: reg_clear_def split_def Let_def)

lemma CAN_poll_MCR_initialized [simp]:
  "s_canInitialized (snd (CAN_poll_MCR hw base waiting t s)) = s_canInitialized s"
  by (induction t arbitrary: s) (simp_all add: split_def Let_def)

lemma fold_reg_write_initialized [simp]:
  "s_canInitialized (fold (\<lambda>i. reg_write base (f i) v) xs s) = s_canInitialized s"
  by (induction xs arbitrary: s) simp_all

lemma CAN_EnterFreezeMode_initialized [simp]:
  "s_canInitialized (snd (CAN_EnterFreezeMode hw base s)) = s_canInitialized s"
  by (simp add: CAN_EnterFreezeMode_def split_def Let_def)

lemma CAN_SoftReset_initialized [simp]:
  "s_canInitialized (snd (CAN_SoftReset hw base s)) = s_canInitialized s"
  by (simp add: CAN_SoftReset_def split_def Let_def)

lemma CAN_ExitFreezeMode_initialized [simp]:
  "s_canInitialized (snd (CAN_ExitFreezeMode hw base s)) = s_canInitialized s"
  by (simp add: CAN_ExitFreezeMode_def split_def Let_def)

lemma CAN_EnableClock_initialized [simp]:
  "s_canInitialized (CAN_EnableClock inst clk s) = s_canInitialized s"
  by (simp add: CAN_EnableClock_def Let_def)

lemma CAN_InitMessageBuffers_initialized [simp]:
  "s_canInitialized (CAN_InitMessageBuffers base s) = s_canInitialized s"
  by (simp add: CAN_InitMessageBuffers_def Let_def)

lemma CAN_Init_configure_initialized:
  assumes "CAN_Init_configure hw c t s = (st, s')"
  shows "s_canInitialized s' =
     (if st = STATUS_SUCCESS then (s_canInitialized s)(cfg_instance c := True)
      else s_canInitialized s)"
proof -
  have "s_canInitialized (snd (CAN_Init_configure hw c t s)) =
     (if fst (CAN_Init_configure hw c t s) = STATUS_SUCCESS
      then (s_canInitialized s)(cfg_instance c := True) else s_canInitialized s)"
    by (simp add: CAN_Init_configure_def split_def Let_def)
  then show ?thesis using assms by simp
qed

lemma CAN_Init_initialized:
  assumes "CAN_Init hw config s = Inr (st, s')"
  shows "s_canInitialized s' =
     (if st = STATUS_SUCCESS then (s_canInitialized s)(cfg_instance (the config) := True)
      else s_canInitialized s)"
    and "st = STATUS_SUCCESS \<Longrightarrow> config \<noteq> None"
  using assms
  by (auto simp add: CAN_Init_def split_def Let_def
      dest: CAN_Init_configure_initialized
      split: option.splits if_splits sum.splits prod.splits)


lemma CAN_Send_initialized [simp]:
  "s_canInitialized (snd (CAN_Send inst mbIdx msg s)) = s_canInitialized s"
  by (simp add: CAN_Send_def Let_def)

lemma CAN_SendBlocking_wait_initialized [simp]:
  "s_canInitialized (snd (CAN_SendBlocking_wait hw base mbMask n s)) = s_canInitialized s"
  by (induction n arbitrary: s) (simp_all add: split_def Let_def)

lemma CAN_SendBlocking_initialized [simp]:
  "s_canInitialized (snd (CAN_SendBlocking hw inst mbIdx msg timeoutMs s)) = s_canInitialized s"
  by (simp add: CAN_SendBlocking_def split_def Let_def)

lemma CAN_Receive_initialized [simp]:
  "s_canInitialized (snd (snd (CAN_Receive inst mbIdx msg s))) = s_canInitialized s"
  by (simp add: CAN_Receive_def split_def Let_def)

lemma CAN_ReceiveBlocking_wait_initialized [simp]:
  "s_canInitialized (snd (snd (CAN_ReceiveBlocking_wait hw inst mbIdx msg n s))) =
     s_canInitialized s"
  by (induction n arbitrary: s) (simp_all add: split_def Let_def)

lemma CAN_ReceiveBlocking_initialized:
  "CAN_ReceiveBlocking hw inst mbIdx msg timeoutMs s = Inr (st, m, s') \<Longrightarrow>
     s_canInitialized s' = s_canInitialized s"
  by (auto simp add: CAN_ReceiveBlocking_def split: if_splits
      dest: arg_cong [where f = "\<lambda>x. s_canInitialized (snd (snd x))"])

lemma CAN_ConfigRxFilter_initialized [simp]:
  "s_canInitialized (snd (CAN_ConfigRxFilter inst mbIdx flt s)) = s_canInitialized s"
  by (simp add: CAN_ConfigRxFilter_def split_def Let_def)

lemma CAN_ConfigTxMailbox_initialized [simp]:
  "s_canInitialized (snd (CAN_ConfigTxMailbox inst mbIdx s)) = s_canInitialized s"
  by (simp add: CAN_ConfigTxMailbox_def split_def Let_def)

lemma CAN_AbortTransmission_initialized [simp]:
  "s_canInitialized (snd (CAN_AbortTransmission inst mbIdx s)) = s_canInitialized s"
  by (simp add: CAN_AbortTransmission_def Let_def)

lemma CAN_IsMbBusy_initialized [simp]:
  "s_canInitialized (snd (snd (CAN_IsMbBusy inst mbIdx isBusy s))) = s_canInitialized s"
  by (simp add: CAN_IsMbBusy_def split_def Let_def)

lemma CAN_GetErrorState_initialized [simp]:
  "s_canInitialized (snd (snd (CAN_GetErrorState inst e s))) = s_canInitialized s"
  by (simp add: CAN_GetErrorState_def split_def Let_def)

lemma CAN_GetErrorCounters_initialized [simp]:
  "s_canInitialized (snd (snd (snd (CAN_GetErrorCounters inst t r s)))) = s_canInitialized s"
  by (simp add: CAN_GetErrorCounters_def split_def Let_def)

lemma CAN_RegisterCallback_initialized [simp]:
  "s_canInitialized (snd (CAN_RegisterCallback inst cb s)) = s_canInitialized s"
  by (simp add: CAN_RegisterCallback_def Let_def)

lemma CAN_UnregisterCallback_initialized [simp]:
  "s_canInitialized (snd (CAN_UnregisterCallback inst s)) = s_canInitialized s"
  by (simp add: CAN_UnregisterCallback_def Let_def)

lemma CAN_IRQHandler_initialized [simp]:
  "s_canInitialized (CAN_IRQHandler inst s) = s_canInitialized s"
  by (simp add: CAN_IRQHandler_def mb_defs split_def split: option.splits)

subsection \<open>\<open>CAN_Init\<close> with a peripheral that answers at once\<close>

lemma freeze_timeout_pos: "CAN_FREEZE_TIMEOUT \<noteq> 0"
  by (simp add: CAN_FREEZE_TIMEOUT_def)

lemma CAN_poll_MCR_exit:
  "t \<noteq> 0 \<Longrightarrow> \<not> waiting (regs (hw_step hw s) base MCR) \<Longrightarrow>
   CAN_poll_MCR hw base waiting t s = (t, snd (reg_read base MCR (hw_step hw s)))"
  by (cases t) (simp_all add: reg_read_def)

lemma regs_reg_set_MCR:
  "regs (reg_set base MCR m s) base MCR = regs s base MCR OR m"
  by (simp add: reg_set_def reg_read_def reg_write_def reg_store_def)

lemma regs_reg_clear_MCR:
  "regs (reg_clear base MCR m s) base MCR = regs s base MCR AND NOT m"
  by (simp add: reg_clear_def reg_read_def reg_write_def reg_store_def)

lemma regs_hw_step: "regs (hw_step hw s) = hw (regs s)"
  by (simp add: hw_step_def)

lemma regs_reg_read: "regs (snd (reg_read base r s)) = regs s"
  by (simp add: reg_read_def)

lemma mcr_masks:
  "CAN_MCR_FRZ_MASK = push_bit 30 1" "CAN_MCR_HALT_MASK = push_bit 28 1"
  "CAN_MCR_NOTRDY_MASK = push_bit 27 1" "CAN_MCR_SOFTRST_MASK = push_bit 25 1"
  "CAN_MCR_FRZACK_MASK = push_bit 24 1"
  by (simp_all add: CAN_MCR_FRZ_MASK_def CAN_MCR_HALT_MASK_def CAN_MCR_NOTRDY_MASK_def
      CAN_MCR_SOFTRST_MASK_def CAN_MCR_FRZACK_MASK_def)

lemma and_bit_eq_0: "(a :: 32 word) AND push_bit n 1 = 0 \<longleftrightarrow> \<not> bit a n"
  by (simp add: and_exp_eq_0_iff_not_bit flip: push_bit_eq_mult [of n 1, simplified])

lemma req_iff:
  "(m :: 32 word) AND (push_bit 30 1 OR push_bit 28 1) = push_bit 30 1 OR push_bit 28 1
     \<longleftrightarrow> bit m 30 \<and> bit m 28"
proof
  assume a: "m AND (push_bit 30 1 OR push_bit 28 1) = push_bit 30 1 OR push_bit 28 1"
  from arg_cong [OF a, of "\<lambda>x. bit x 30"] arg_cong [OF a, of "\<lambda>x. bit x 28"]
  show "bit m 30 \<and> bit m 28"
    by (simp only: bit_simps) (simp add: possible_bit_word)
next
  assume "bit m 30 \<and> bit m 28"
  then show "m AND (push_bit 30 1 OR push_bit 28 1) = push_bit 30 1 OR push_bit 28 1"
    apply -
    apply (rule bit_word_eqI)
    apply (simp only: bit_simps)
    apply (auto simp add: possible_bit_word)
    done
qed

lemma hw_prompt_bits:
  "bit (hw_prompt r base MCR) n \<longleftrightarrow>
     (if n = 25 then False
      else if n = 24 \<or> n = 27 then bit (r base MCR) 30 \<and> bit (r base MCR) 28
      else bit (r base MCR) n)"
  unfolding hw_prompt_def mcr_masks Let_def fun_upd_same req_iff
  apply (simp only: bit_simps o_apply if_distrib [of "\<lambda>x. bit x n"] if_distrib [of "\<lambda>x. x AND y" for y])
  apply (auto simp add: possible_bit_word dest: bit_imp_le_length)
  done


lemma hw_prompt_other: "r' \<noteq> MCR \<Longrightarrow> hw_prompt r base r' = r base r'"
  by (simp add: hw_prompt_def)

lemma CAN_EnterFreezeMode_prompt:
  "fst (CAN_EnterFreezeMode hw_prompt base s) = STATUS_SUCCESS"
proof -
  let ?s1 = "reg_set base MCR (CAN_MCR_FRZ_MASK OR CAN_MCR_HALT_MASK) s"
  have "bit (regs (hw_step hw_prompt ?s1) base MCR) 24"
    unfolding regs_hw_step hw_prompt_bits regs_reg_set_MCR mcr_masks
    by (simp only: bit_simps) (simp add: possible_bit_word)
  then have "\<not> (regs (hw_step hw_prompt ?s1) base MCR AND CAN_MCR_FRZACK_MASK = 0)"
    unfolding mcr_masks and_bit_eq_0 by simp
  from CAN_poll_MCR_exit [where waiting = "\<lambda>v. v AND CAN_MCR_FRZACK_MASK = 0", OF freeze_timeout_pos this]
  show ?thesis
    by (simp add: CAN_EnterFreezeMode_def Let_def freeze_timeout_pos)
qed

lemma CAN_SoftReset_prompt:
  "fst (CAN_SoftReset hw_prompt base s) = STATUS_SUCCESS"
proof -
  let ?s1 = "reg_set base MCR CAN_MCR_SOFTRST_MASK s"
  have "\<not> bit (regs (hw_step hw_prompt ?s1) base MCR) 25"
    unfolding regs_hw_step hw_prompt_bits by simp
  then have "\<not> (regs (hw_step hw_prompt ?s1) base MCR AND CAN_MCR_SOFTRST_MASK \<noteq> 0)"
    unfolding mcr_masks and_bit_eq_0 by simp
  from CAN_poll_MCR_exit [where waiting = "\<lambda>v. v AND CAN_MCR_SOFTRST_MASK \<noteq> 0", OF freeze_timeout_pos this]
  show ?thesis
    by (simp add: CAN_SoftReset_def Let_def freeze_timeout_pos)
qed

lemma CAN_ExitFreezeMode_prompt:
  "fst (CAN_ExitFreezeMode hw_prompt base s) = STATUS_SUCCESS"
proof -
  let ?s1 = "reg_clear base MCR (CAN_MCR_FRZ_MASK OR CAN_MCR_HALT_MASK) s"
  let ?s2 = "snd (reg_read base MCR (hw_step hw_prompt ?s1))"
  have n30: "\<not> bit (regs ?s1 base MCR) 30"
    unfolding regs_reg_clear_MCR mcr_masks
    by (simp only: bit_simps) (simp add: possible_bit_word)
  then have "\<not> bit (regs (hw_step hw_prompt ?s1) base MCR) 24"
    unfolding regs_hw_step hw_prompt_bits by simp
  then have a: "\<not> (regs (hw_step hw_prompt ?s1) base MCR AND CAN_MCR_FRZACK_MASK \<noteq> 0)"
    unfolding mcr_masks and_bit_eq_0 by simp
  from n30 have "\<not> bit (regs ?s2 base MCR) 30"
    unfolding regs_reg_read regs_hw_step hw_prompt_bits by simp
  then have "\<not> bit (regs (hw_step hw_prompt ?s2) base MCR) 27"
    unfolding regs_hw_step [of hw_prompt ?s2] hw_prompt_bits by simp
  then have b: "\<not> (regs (hw_step hw_prompt ?s2) base MCR AND CAN_MCR_NOTRDY_MASK \<noteq> 0)"
    unfolding mcr_masks and_bit_eq_0 by simp
  note p1 = CAN_poll_MCR_exit [where waiting = "\<lambda>v. v AND CAN_MCR_FRZACK_MASK \<noteq> 0", OF freeze_timeout_pos a]
  note p2 = CAN_poll_MCR_exit [where waiting = "\<lambda>v. v AND CAN_MCR_NOTRDY_MASK \<noteq> 0", OF freeze_timeout_pos b]
  show ?thesis
    by (simp add: CAN_ExitFreezeMode_def Let_def p1 p2 freeze_timeout_pos)
qed

lemma CAN_Init_configure_prompt:
  "fst (CAN_Init_configure hw_prompt c t s) = STATUS_SUCCESS"
  by (simp add: CAN_Init_configure_def split_def Let_def CAN_ExitFreezeMode_prompt)

lemma CAN_Init_prompt:
  assumes "cfg_instance c < CAN_INSTANCE_COUNT"
    and "CAN_CalculateTiming (CAN_GetClockFrequency (clockSource c)) (baudRate c)
           (Some timing_local) = Inr (STATUS_SUCCESS, t)"
  shows "\<exists>s'. CAN_Init hw_prompt (Some c) s = Inr (STATUS_SUCCESS, s') \<and>
           s_canInitialized s' = (s_canInitialized s)(cfg_instance c := True)"
proof -
  have "\<exists>s0. CAN_Init hw_prompt (Some c) s = Inr (CAN_Init_configure hw_prompt c (the t) s0)"
    using assms
    by (simp add: CAN_Init_def split_def Let_def CAN_EnterFreezeMode_prompt
        CAN_SoftReset_prompt) (rule exI, rule refl)
  then obtain s0 where "CAN_Init hw_prompt (Some c) s = Inr (CAN_Init_configure hw_prompt c (the t) s0)"
    by blast
  then have r: "CAN_Init hw_prompt (Some c) s =
      Inr (STATUS_SUCCESS, snd (CAN_Init_configure hw_prompt c (the t) s0))"
    using CAN_Init_configure_prompt [of c "the t" s0]
    by (cases "CAN_Init_configure hw_prompt c (the t) s0") simp
  with CAN_Init_initialized(1) [OF r] show ?thesis by simp
qed

lemma CAN_CalculateTiming_baud0:
  "CAN_CalculateTiming clk 0 (Some timing_local) =
     Inr (STATUS_INVALID_PARAM, Some timing_local)"
  by (simp add: CAN_CalculateTiming_def)

lemma CAN_Init_prompt_rejected:
  assumes "cfg_instance c < CAN_INSTANCE_COUNT"
    and "CAN_CalculateTiming (CAN_GetClockFrequency (clockSource c)) (baudRate c)
           (Some timing_local) = Inr (STATUS_INVALID_PARAM, t)"
  shows "\<exists>s'. CAN_Init hw_prompt (Some c) s = Inr (STATUS_INVALID_PARAM, s') \<and>
           s_canInitialized s' = s_canInitialized s"
proof -
  have "\<exists>s'. CAN_Init hw_prompt (Some c) s = Inr (STATUS_INVALID_PARAM, s')"
    using assms
    by (simp add: CAN_Init_def split_def Let_def CAN_EnterFreezeMode_prompt
        CAN_SoftReset_prompt)
  then obtain s' where r: "CAN_Init hw_prompt (Some c) s = Inr (STATUS_INVALID_PARAM, s')"
    by blast
  with CAN_Init_initialized(1) [OF r] show ?thesis by simp
qed

lemma CAN_Init_prompt_baud0:
  assumes "cfg_instance c < CAN_INSTANCE_COUNT" and "baudRate c = 0"
  shows "\<exists>s'. CAN_Init hw_prompt (Some c) s = Inr (STATUS_INVALID_PARAM, s') \<and>
           s_canInitialized s' = s_canInitialized s"
  using CAN_Init_prompt_rejected [OF assms(1), of "Some timing_local" s] assms(2)
  by (simp add: CAN_CalculateTiming_baud0)

subsection \<open>The initialised flag along a run\<close>

lemma CAN_Deinit_result:
  "fst (CAN_Deinit inst s) =
     (if inst \<ge> CAN_INSTANCE_COUNT then STATUS_INVALID_PARAM else STATUS_SUCCESS)"
  "s_canInitialized (snd (CAN_Deinit inst s)) =
     (if inst \<ge> CAN_INSTANCE_COUNT then s_canInitialized s
      else (s_canInitialized s)(inst := False))"
  by (simp_all add: CAN_Deinit_def Let_def)

lemma can_call_run_initialized:
  assumes "can_call_run hw c s = Inr (st, s')"
  shows "s_canInitialized s' i =
     (if init_done i (c, st) then True
      else if deinit_done i (c, st) then False else s_canInitialized s i)"
proof (cases c)
  case (Call_Init config)
  with assms obtain st0 where r: "CAN_Init hw config s = Inr (st0, s')" and st: "st = Some st0"
    by (auto split: sum.splits)
  show ?thesis
  proof (cases "st0 = STATUS_SUCCESS")
    case True
    with CAN_Init_initialized(2) [OF r] obtain cfg where cfg: "config = Some cfg" by auto
    with CAN_Init_initialized(1) [OF r] True Call_Init st show ?thesis by simp
  next
    case False
    with CAN_Init_initialized(1) [OF r] Call_Init st show ?thesis
      by (cases config) simp_all
  qed
next
  case (Call_Deinit inst)
  with assms have "s' = snd (CAN_Deinit inst s)" and "st = Some (fst (CAN_Deinit inst s))"
    by (auto simp add: split_def Let_def)
  with Call_Deinit show ?thesis by (auto simp add: CAN_Deinit_result)
next
  case (Call_ReceiveBlocking inst mbIdx msg timeoutMs)
  with assms show ?thesis
    by (auto split: sum.splits dest: CAN_ReceiveBlocking_initialized)
qed (use assms in \<open>auto simp add: split_def Let_def\<close>)

lemma can_run_initialized:
  "can_run cs s = Inr (lg, s') \<Longrightarrow>
   s_canInitialized s' i = initialized_after i lg (s_canInitialized s i)"
proof (induction cs arbitrary: s lg)
  case Nil
  then show ?case by simp
next
  case (Cons a cs)
  obtain hw c where a: "a = (hw, c)" by (cases a)
  from Cons.prems a obtain st s1 lg1 where
    step: "can_call_run hw c s = Inr (st, s1)" and rest: "can_run cs s1 = Inr (lg1, s')"
    and lg: "lg = (c, st) # lg1"
    by (auto split: sum.splits)
  from Cons.IH [OF rest] can_call_run_initialized [OF step, of i] lg show ?case by simp
qed

lemma config_500k_timing:
  "\<exists>t. CAN_CalculateTiming (CAN_GetClockFrequency (clockSource config_500k))
      (baudRate config_500k) (Some timing_local) = Inr (STATUS_SUCCESS, t)"
  by (simp add: config_500k_def CAN_GetClockFrequency_def CAN_CalculateTiming_def Let_def)

lemma calls_reinit_failed_run:
  "\<exists>s. can_run calls_reinit_failed s0 =
      Inr ([(Call_Init (Some config_500k), Some STATUS_SUCCESS),
            (Call_Init (Some config_baud0), Some STATUS_INVALID_PARAM)], s) \<and>
      s_canInitialized s = (s_canInitialized s0)(0 := True)"
proof -
  from config_500k_timing obtain t where
    t: "CAN_CalculateTiming (CAN_GetClockFrequency (clockSource config_500k))
      (baudRate config_500k) (Some timing_local) = Inr (STATUS_SUCCESS, t)" ..
  have i: "cfg_instance config_500k < CAN_INSTANCE_COUNT"
    "cfg_instance config_baud0 < CAN_INSTANCE_COUNT" "baudRate config_baud0 = 0"
    "cfg_instance config_500k = 0"
    by (simp_all add: config_500k_def config_baud0_def CAN_INSTANCE_COUNT_def)
  from CAN_Init_prompt [OF i(1) t, of s0] obtain s1 where
    s1: "CAN_Init hw_prompt (Some config_500k) s0 = Inr (STATUS_SUCCESS, s1)"
    and f1: "s_canInitialized s1 = (s_canInitialized s0)(0 := True)"
    by (auto simp add: i(4))
  from CAN_Init_prompt_baud0 [OF i(2,3), of s1] obtain s2 where
    s2: "CAN_Init hw_prompt (Some config_baud0) s1 = Inr (STATUS_INVALID_PARAM, s2)"
    and f2: "s_canInitialized s2 = s_canInitialized s1"
    by auto
  show ?thesis
    by (rule exI [of _ s2]) (simp add: calls_reinit_failed_def s1 s2 f1 f2)
qed

lemma calls_deinit_failed_init_run:
  "\<exists>s. can_run calls_deinit_failed_init s0 =
      Inr ([(Call_Init (Some config_500k), Some STATUS_SUCCESS),
            (Call_Deinit 0, Some STATUS_SUCCESS),
            (Call_Init (Some config_baud0), Some STATUS_INVALID_PARAM)], s)"
proof -
  from config_500k_timing obtain t where
    t: "CAN_CalculateTiming (CAN_GetClockFrequency (clockSource config_500k))
      (baudRate config_500k) (Some timing_local) = Inr (STATUS_SUCCESS, t)" ..
  have i: "cfg_instance config_500k < CAN_INSTANCE_COUNT"
    "cfg_instance config_baud0 < CAN_INSTANCE_COUNT" "baudRate config_baud0 = 0"
    by (simp_all add: config_500k_def config_baud0_def CAN_INSTANCE_COUNT_def)
  from CAN_Init_prompt [OF i(1) t, of s0] obtain s1 where
    s1: "CAN_Init hw_prompt (Some config_500k) s0 = Inr (STATUS_SUCCESS, s1)"
    by auto
  from CAN_Init_prompt_baud0 [OF i(2,3), of "snd (CAN_Deinit 0 s1)"] obtain s2 where
    s2: "CAN_Init hw_prompt (Some config_baud0) (snd (CAN_Deinit 0 s1)) =
           Inr (STATUS_INVALID_PARAM, s2)"
    by auto
  show ?thesis
    by (rule exI [of _ s2])
      (simp add: calls_deinit_failed_init_def s1 s2 split_def CAN_Deinit_result
        CAN_INSTANCE_COUNT_def)
qed

text \<open>
  C6, as amended. Take any sequence of driver calls run from the state at reset, with any
  behaviour of the peripheral. The initialised flag of an instance \<open>i\<close> is then true exactly
  when the last successful \<open>CAN_Init\<close> or \<open>CAN_Deinit\<close> on \<open>i\<close> in the run was a
  \<open>CAN_Init\<close>: it is false at reset and after \<open>CAN_Deinit\<close>, and a \<open>CAN_Init\<close> that fails,
  by timeout or bad parameter, leaves it as it was. Whenever it is false, \<open>CAN_Send\<close>,
  \<open>CAN_SendBlocking\<close>, \<open>CAN_Receive\<close>, \<open>CAN_ReceiveBlocking\<close>, \<open>CAN_ConfigRxFilter\<close> and
  \<open>CAN_ConfigTxMailbox\<close> on \<open>i\<close>, with a message or filter that is not \<open>NULL\<close>, return
  \<open>STATUS_NOT_INITIALIZED\<close> and leave the state as it is. \<open>CAN_AbortTransmission\<close> and
  \<open>CAN_IsMbBusy\<close> are not among them: they do not read the flag.
\<close>

theorem initialized_flag_follows_calls:
  assumes run: "can_run cs (can_state_reset r) = Inr (lg, s)"
  shows "s_canInitialized s i = initialized_after i lg False \<and>
         (i < CAN_INSTANCE_COUNT \<and> \<not> initialized_after i lg False \<longrightarrow>
            CAN_Send i mbIdx (Some m) s = (STATUS_NOT_INITIALIZED, s) \<and>
            CAN_SendBlocking hw i mbIdx (Some m) timeoutMs s = (STATUS_NOT_INITIALIZED, s) \<and>
            CAN_Receive i mbIdx (Some m) s = (STATUS_NOT_INITIALIZED, Some m, s) \<and>
            CAN_ReceiveBlocking hw i mbIdx (Some m) timeoutMs s =
              Inr (STATUS_NOT_INITIALIZED, Some m, s) \<and>
            CAN_ConfigRxFilter i mbIdx (Some f) s = (STATUS_NOT_INITIALIZED, s) \<and>
            CAN_ConfigTxMailbox i mbIdx s = (STATUS_NOT_INITIALIZED, s))"
proof -
  have u: "s_canInitialized s i = initialized_after i lg False"
    using can_run_initialized [OF run, of i] by (simp add: can_state_reset_def)
  show ?thesis
    unfolding u [symmetric]
    by (simp add: CAN_Send_def CAN_SendBlocking_def CAN_Receive_def CAN_ReceiveBlocking_def
        CAN_ConfigRxFilter_def CAN_ConfigTxMailbox_def not_le [symmetric])
qed

text \<open>
  C6 as stated fails, in two ways. In the state at reset, where instance 0 was never
  initialised, \<open>CAN_AbortTransmission\<close> writes the abort code to mailbox 8 and returns
  \<open>STATUS_SUCCESS\<close>, and \<open>CAN_IsMbBusy\<close> returns \<open>STATUS_SUCCESS\<close> too. And after a
  \<open>CAN_Init\<close> on instance 0 that succeeded, a second \<open>CAN_Init\<close> on it that fails with
  \<open>STATUS_INVALID_PARAM\<close> leaves the flag true, and \<open>CAN_Send\<close> then returns
  \<open>STATUS_SUCCESS\<close>.
\<close>

theorem not_initialized_counterexample:
  "\<not> s_canInitialized state_start 0 \<and>
   fst (CAN_AbortTransmission 0 8 state_start) = STATUS_SUCCESS \<and>
   fst (CAN_AbortTransmission 0 8 state_start) \<noteq> STATUS_NOT_INITIALIZED \<and>
   bus (snd (CAN_AbortTransmission 0 8 state_start)) = [(CAN0, Write (RAMn 32) 0x09000000)] \<and>
   fst (CAN_IsMbBusy 0 8 (Some False) state_start) = STATUS_SUCCESS \<and>
   fst (CAN_IsMbBusy 0 8 (Some False) state_start) \<noteq> STATUS_NOT_INITIALIZED \<and>
   (case can_run calls_reinit_failed state_start of
      Inl f \<Rightarrow> False
    | Inr (lg, s) \<Rightarrow>
        lg = [(Call_Init (Some config_500k), Some STATUS_SUCCESS),
              (Call_Init (Some config_baud0), Some STATUS_INVALID_PARAM)] \<and>
        s_canInitialized s 0 \<and>
        fst (CAN_Send 0 8 (Some msg_example) s) = STATUS_SUCCESS \<and>
        fst (CAN_Send 0 8 (Some msg_example) s) \<noteq> STATUS_NOT_INITIALIZED)"
proof -
  have a: "\<not> s_canInitialized state_start 0 \<and>
   fst (CAN_AbortTransmission 0 8 state_start) = STATUS_SUCCESS \<and>
   fst (CAN_AbortTransmission 0 8 state_start) \<noteq> STATUS_NOT_INITIALIZED \<and>
   bus (snd (CAN_AbortTransmission 0 8 state_start)) = [(CAN0, Write (RAMn 32) 0x09000000)] \<and>
   fst (CAN_IsMbBusy 0 8 (Some False) state_start) = STATUS_SUCCESS \<and>
   fst (CAN_IsMbBusy 0 8 (Some False) state_start) \<noteq> STATUS_NOT_INITIALIZED"
    by (simp add: state_start_def can_state_reset_def CAN_AbortTransmission_def CAN_IsMbBusy_def
        can_consts s_canBases_def reg_write_def reg_read_def Let_def)
  from calls_reinit_failed_run [of state_start] obtain s where
    run: "can_run calls_reinit_failed state_start =
      Inr ([(Call_Init (Some config_500k), Some STATUS_SUCCESS),
            (Call_Init (Some config_baud0), Some STATUS_INVALID_PARAM)], s)"
    and f: "s_canInitialized s 0"
    by auto
  have "fst (CAN_Send 0 8 (Some msg_example) s) = STATUS_SUCCESS"
    using f by (simp add: CAN_Send_def can_consts msg_example_def Let_def)
  with a run f show ?thesis by simp
qed

theorem initialized_flag_follows_calls_witness:
  "\<exists>lg s. can_run calls_deinit_failed_init (can_state_reset (\<lambda>_ _. 0)) = Inr (lg, s) \<and>
     lg = [(Call_Init (Some config_500k), Some STATUS_SUCCESS),
           (Call_Deinit 0, Some STATUS_SUCCESS),
           (Call_Init (Some config_baud0), Some STATUS_INVALID_PARAM)] \<and>
     (0::nat) < CAN_INSTANCE_COUNT \<and>
     \<not> initialized_after 0 lg False \<and>
     \<not> s_canInitialized s 0 \<and>
     CAN_Send 0 8 (Some msg_example) s = (STATUS_NOT_INITIALIZED, s) \<and>
     CAN_SendBlocking hw_idle 0 8 (Some msg_example) 1 s = (STATUS_NOT_INITIALIZED, s) \<and>
     CAN_Receive 0 16 (Some msg_example) s = (STATUS_NOT_INITIALIZED, Some msg_example, s) \<and>
     CAN_ReceiveBlocking hw_idle 0 16 (Some msg_example) 1 s =
       Inr (STATUS_NOT_INITIALIZED, Some msg_example, s) \<and>
     CAN_ConfigRxFilter 0 16 (Some filter_example) s = (STATUS_NOT_INITIALIZED, s) \<and>
     CAN_ConfigTxMailbox 0 8 s = (STATUS_NOT_INITIALIZED, s)"
proof -
  let ?lg = "[(Call_Init (Some config_500k), Some STATUS_SUCCESS),
           (Call_Deinit 0, Some STATUS_SUCCESS),
           (Call_Init (Some config_baud0), Some STATUS_INVALID_PARAM)]"
  from calls_deinit_failed_init_run [of "can_state_reset (\<lambda>_ _. 0)"] obtain s where
    run: "can_run calls_deinit_failed_init (can_state_reset (\<lambda>_ _. 0)) = Inr (?lg, s)"
    by auto
  have i: "(0::nat) < CAN_INSTANCE_COUNT" by (simp add: CAN_INSTANCE_COUNT_def)
  have n: "\<not> initialized_after 0 ?lg False"
    by (simp add: config_500k_def config_baud0_def)
  note tx = initialized_flag_follows_calls [OF run, where i = 0 and mbIdx = 8
      and m = msg_example and hw = hw_idle and timeoutMs = 1 and f = filter_example]
  note rx = initialized_flag_follows_calls [OF run, where i = 0 and mbIdx = 16
      and m = msg_example and hw = hw_idle and timeoutMs = 1 and f = filter_example]
  show ?thesis
    by (rule exI [of _ ?lg], rule exI [of _ s]) (use tx rx run n i in simp)
qed

subsection \<open>Validation before hardware access\<close>

lemma reg_read_bus: "bus (snd (reg_read base r s)) = bus s @ [(base, Read r)]"
  by (simp add: reg_read_def)

lemma reg_write_bus: "bus (reg_write base r v s) = bus s @ [(base, Write r v)]"
  by (simp add: reg_write_def)

lemma hw_step_bus: "bus (hw_step hw s) = bus s"
  by (simp add: hw_step_def)

lemma reg_set_bus:
  "bus (reg_set base r m s) = bus s @ [(base, Read r), (base, Write r (regs s base r OR m))]"
  by (simp add: reg_set_def reg_read_def reg_write_def)

lemma reg_clear_bus:
  "bus (reg_clear base r m s) =
     bus s @ [(base, Read r), (base, Write r (regs s base r AND NOT m))]"
  by (simp add: reg_clear_def reg_read_def reg_write_def)

lemma CAN_poll_MCR_bus:
  "\<exists>acc. bus (snd (CAN_poll_MCR hw base waiting t s)) = bus s @ acc"
proof (induction t arbitrary: s)
  case 0
  then show ?case by simp
next
  case (Suc t)
  let ?s1 = "snd (reg_read base MCR (hw_step hw s))"
  from Suc [of ?s1] obtain acc where
    "bus (snd (CAN_poll_MCR hw base waiting t ?s1)) = bus ?s1 @ acc" ..
  then show ?case
    by (simp add: split_def Let_def reg_read_bus hw_step_bus)
qed

lemma CAN_EnterFreezeMode_bus:
  "\<exists>acc. bus (snd (CAN_EnterFreezeMode hw base s)) = bus s @ acc"
proof -
  let ?s1 = "reg_set base MCR (CAN_MCR_FRZ_MASK OR CAN_MCR_HALT_MASK) s"
  from CAN_poll_MCR_bus [of hw base "\<lambda>v. v AND CAN_MCR_FRZACK_MASK = 0" CAN_FREEZE_TIMEOUT ?s1]
  show ?thesis
    by (auto simp add: CAN_EnterFreezeMode_def split_def Let_def reg_set_bus)
qed

lemma CAN_SoftReset_bus:
  "\<exists>acc. bus (snd (CAN_SoftReset hw base s)) = bus s @ acc"
proof -
  let ?s1 = "reg_set base MCR CAN_MCR_SOFTRST_MASK s"
  from CAN_poll_MCR_bus [of hw base "\<lambda>v. v AND CAN_MCR_SOFTRST_MASK \<noteq> 0" CAN_FREEZE_TIMEOUT ?s1]
  show ?thesis
    by (auto simp add: CAN_SoftReset_def split_def Let_def reg_set_bus)
qed

lemma CAN_EnableClock_bus:
  "\<exists>acc. bus (CAN_EnableClock inst clk s) =
     bus s @ (s_canBases inst, Read MCR) #
       (s_canBases inst, Write MCR (regs s (s_canBases inst) MCR OR CAN_MCR_MDIS_MASK)) # acc"
  by (simp add: CAN_EnableClock_def Let_def reg_set_bus reg_clear_bus)

lemma CAN_Init_rejected:
  assumes "cfg_instance c < CAN_INSTANCE_COUNT"
    and "CAN_CalculateTiming (CAN_GetClockFrequency (clockSource c)) (baudRate c)
           (Some timing_local) = Inr (STATUS_INVALID_PARAM, t)"
  shows "\<exists>st s' acc. CAN_Init hw (Some c) s = Inr (st, s') \<and>
           (st = STATUS_ERROR \<or> st = STATUS_INVALID_PARAM) \<and>
           bus s' = bus s @ (s_canBases (cfg_instance c), Read MCR) #
             (s_canBases (cfg_instance c),
              Write MCR (regs s (s_canBases (cfg_instance c)) MCR OR CAN_MCR_MDIS_MASK)) # acc"
proof -
  let ?b = "s_canBases (cfg_instance c)"
  let ?s1 = "CAN_EnableClock (cfg_instance c) (clockSource c) s"
  let ?s2 = "snd (CAN_EnterFreezeMode hw ?b ?s1)"
  let ?s3 = "snd (CAN_SoftReset hw ?b ?s2)"
  from CAN_EnableClock_bus [of "cfg_instance c" "clockSource c" s] obtain a1 where
    b1: "bus ?s1 = bus s @ (?b, Read MCR) #
       (?b, Write MCR (regs s ?b MCR OR CAN_MCR_MDIS_MASK)) # a1" ..
  from CAN_EnterFreezeMode_bus [of hw ?b ?s1] obtain a2 where b2: "bus ?s2 = bus ?s1 @ a2" ..
  from CAN_SoftReset_bus [of hw ?b ?s2] obtain a3 where b3: "bus ?s3 = bus ?s2 @ a3" ..
  show ?thesis
    using assms b1 b2 b3
    by (simp add: CAN_Init_def split_def Let_def)
qed

text \<open>
  C7, as amended. Every operation checks its instance, or instance pointer, and its pointer
  arguments before any register access: \<open>CAN_Send\<close>, \<open>CAN_SendBlocking\<close>, \<open>CAN_Receive\<close>,
  \<open>CAN_ReceiveBlocking\<close>, \<open>CAN_ConfigRxFilter\<close>, \<open>CAN_ConfigTxMailbox\<close>, \<open>CAN_Deinit\<close>,
  \<open>CAN_AbortTransmission\<close>, \<open>CAN_IsMbBusy\<close>, \<open>CAN_GetErrorState\<close>, \<open>CAN_GetErrorCounters\<close>,
  \<open>CAN_RegisterCallback\<close>, \<open>CAN_UnregisterCallback\<close> and \<open>CAN_Init\<close> return
  \<open>STATUS_INVALID_PARAM\<close> with the state as given, and \<open>CAN_CalculateTiming\<close> returns it for
  a \<open>NULL\<close> result pointer, a bit rate of 0 or a clock of 0 without writing the result. On
  an initialised instance a mailbox index outside the range of the operation, or a
  \<open>dataLength\<close> above 8 for the two send operations, gives \<open>STATUS_INVALID_PARAM\<close> with the
  state as given. On an instance in range that is not initialised, the six operations that
  read the flag return \<open>STATUS_NOT_INITIALIZED\<close> with the state as given, whatever the
  mailbox index and the length. \<open>CAN_Init\<close> with an instance in range and a bit rate that
  \<open>CAN_CalculateTiming\<close> rejects, 0 among them, returns \<open>STATUS_ERROR\<close> or
  \<open>STATUS_INVALID_PARAM\<close> only after register accesses, the first a read of \<open>MCR\<close>
  followed by the write that sets its module-disable bit, and with a peripheral that
  answers at once it returns \<open>STATUS_INVALID_PARAM\<close>. The mailbox index of
  \<open>CAN_ReceiveBlocking\<close> on an initialised instance is not covered.
\<close>

theorem validation_before_hardware:
  "(inst \<ge> CAN_INSTANCE_COUNT \<or> msg = None \<longrightarrow>
      CAN_Send inst mbIdx msg s = (STATUS_INVALID_PARAM, s) \<and>
      CAN_SendBlocking hw inst mbIdx msg timeoutMs s = (STATUS_INVALID_PARAM, s) \<and>
      CAN_Receive inst mbIdx msg s = (STATUS_INVALID_PARAM, msg, s) \<and>
      CAN_ReceiveBlocking hw inst mbIdx msg timeoutMs s = Inr (STATUS_INVALID_PARAM, msg, s)) \<and>
   (inst \<ge> CAN_INSTANCE_COUNT \<or> flt = None \<longrightarrow>
      CAN_ConfigRxFilter inst mbIdx flt s = (STATUS_INVALID_PARAM, s)) \<and>
   (inst \<ge> CAN_INSTANCE_COUNT \<longrightarrow>
      CAN_ConfigTxMailbox inst mbIdx s = (STATUS_INVALID_PARAM, s) \<and>
      CAN_Deinit inst s = (STATUS_INVALID_PARAM, s)) \<and>
   (inst \<ge> CAN_INSTANCE_COUNT \<or> mbIdx \<ge> CAN_MB_COUNT \<longrightarrow>
      CAN_AbortTransmission inst mbIdx s = (STATUS_INVALID_PARAM, s)) \<and>
   (inst \<ge> CAN_INSTANCE_COUNT \<or> mbIdx \<ge> CAN_MB_COUNT \<or> isBusy = None \<longrightarrow>
      CAN_IsMbBusy inst mbIdx isBusy s = (STATUS_INVALID_PARAM, isBusy, s)) \<and>
   (inst \<ge> CAN_INSTANCE_COUNT \<or> errorState = None \<longrightarrow>
      CAN_GetErrorState inst errorState s = (STATUS_INVALID_PARAM, errorState, s)) \<and>
   (inst \<ge> CAN_INSTANCE_COUNT \<or> txErrorCount = None \<or> rxErrorCount = None \<longrightarrow>
      CAN_GetErrorCounters inst txErrorCount rxErrorCount s =
        (STATUS_INVALID_PARAM, txErrorCount, rxErrorCount, s)) \<and>
   (base \<noteq> CAN0 \<and> base \<noteq> CAN1 \<and> base \<noteq> CAN2 \<longrightarrow>
      CAN_RegisterCallback base callback s = (STATUS_INVALID_PARAM, s) \<and>
      CAN_UnregisterCallback base s = (STATUS_INVALID_PARAM, s)) \<and>
   (timing = None \<or> baud = 0 \<or> canClockHz = 0 \<longrightarrow>
      CAN_CalculateTiming canClockHz baud timing = Inr (STATUS_INVALID_PARAM, timing)) \<and>
   (s_canInitialized s inst \<and>
    (mbIdx < CAN_TX_MB_START \<or> mbIdx \<ge> CAN_TX_MB_START + CAN_TX_MB_COUNT) \<longrightarrow>
      CAN_Send inst mbIdx msg s = (STATUS_INVALID_PARAM, s) \<and>
      CAN_SendBlocking hw inst mbIdx msg timeoutMs s = (STATUS_INVALID_PARAM, s) \<and>
      CAN_ConfigTxMailbox inst mbIdx s = (STATUS_INVALID_PARAM, s)) \<and>
   (s_canInitialized s inst \<and> (mbIdx < CAN_RX_MB_START \<or> mbIdx \<ge> CAN_MB_COUNT) \<longrightarrow>
      CAN_Receive inst mbIdx msg s = (STATUS_INVALID_PARAM, msg, s) \<and>
      CAN_ConfigRxFilter inst mbIdx flt s = (STATUS_INVALID_PARAM, s)) \<and>
   (s_canInitialized s inst \<and> dataLength m > CAN_MAX_DATA_LENGTH \<longrightarrow>
      CAN_Send inst mbIdx (Some m) s = (STATUS_INVALID_PARAM, s) \<and>
      CAN_SendBlocking hw inst mbIdx (Some m) timeoutMs s = (STATUS_INVALID_PARAM, s)) \<and>
   (inst < CAN_INSTANCE_COUNT \<and> \<not> s_canInitialized s inst \<longrightarrow>
      CAN_Send inst mbIdx (Some m) s = (STATUS_NOT_INITIALIZED, s) \<and>
      CAN_SendBlocking hw inst mbIdx (Some m) timeoutMs s = (STATUS_NOT_INITIALIZED, s) \<and>
      CAN_Receive inst mbIdx (Some m) s = (STATUS_NOT_INITIALIZED, Some m, s) \<and>
      CAN_ReceiveBlocking hw inst mbIdx (Some m) timeoutMs s =
        Inr (STATUS_NOT_INITIALIZED, Some m, s) \<and>
      CAN_ConfigRxFilter inst mbIdx (Some f) s = (STATUS_NOT_INITIALIZED, s) \<and>
      CAN_ConfigTxMailbox inst mbIdx s = (STATUS_NOT_INITIALIZED, s)) \<and>
   CAN_Init hw None s = Inr (STATUS_INVALID_PARAM, s) \<and>
   (cfg_instance c \<ge> CAN_INSTANCE_COUNT \<longrightarrow>
      CAN_Init hw (Some c) s = Inr (STATUS_INVALID_PARAM, s)) \<and>
   (cfg_instance c < CAN_INSTANCE_COUNT \<and>
    CAN_CalculateTiming (CAN_GetClockFrequency (clockSource c)) (baudRate c)
      (Some timing_local) = Inr (STATUS_INVALID_PARAM, t) \<longrightarrow>
      (\<exists>st s' acc. CAN_Init hw (Some c) s = Inr (st, s') \<and>
         (st = STATUS_ERROR \<or> st = STATUS_INVALID_PARAM) \<and>
         bus s' = bus s @ (s_canBases (cfg_instance c), Read MCR) #
           (s_canBases (cfg_instance c),
            Write MCR (regs s (s_canBases (cfg_instance c)) MCR OR CAN_MCR_MDIS_MASK)) # acc) \<and>
      (\<exists>s'. CAN_Init hw_prompt (Some c) s = Inr (STATUS_INVALID_PARAM, s')))"
proof (intro conjI)
  show "inst \<ge> CAN_INSTANCE_COUNT \<or> msg = None \<longrightarrow>
      CAN_Send inst mbIdx msg s = (STATUS_INVALID_PARAM, s) \<and>
      CAN_SendBlocking hw inst mbIdx msg timeoutMs s = (STATUS_INVALID_PARAM, s) \<and>
      CAN_Receive inst mbIdx msg s = (STATUS_INVALID_PARAM, msg, s) \<and>
      CAN_ReceiveBlocking hw inst mbIdx msg timeoutMs s = Inr (STATUS_INVALID_PARAM, msg, s)"
    by (simp add: CAN_Send_def CAN_SendBlocking_def CAN_Receive_def CAN_ReceiveBlocking_def)
  show "inst \<ge> CAN_INSTANCE_COUNT \<or> flt = None \<longrightarrow>
      CAN_ConfigRxFilter inst mbIdx flt s = (STATUS_INVALID_PARAM, s)"
    by (simp add: CAN_ConfigRxFilter_def)
  show "inst \<ge> CAN_INSTANCE_COUNT \<longrightarrow>
      CAN_ConfigTxMailbox inst mbIdx s = (STATUS_INVALID_PARAM, s) \<and>
      CAN_Deinit inst s = (STATUS_INVALID_PARAM, s)"
    by (simp add: CAN_ConfigTxMailbox_def CAN_Deinit_def)
  show "inst \<ge> CAN_INSTANCE_COUNT \<or> mbIdx \<ge> CAN_MB_COUNT \<longrightarrow>
      CAN_AbortTransmission inst mbIdx s = (STATUS_INVALID_PARAM, s)"
    by (simp add: CAN_AbortTransmission_def)
  show "inst \<ge> CAN_INSTANCE_COUNT \<or> mbIdx \<ge> CAN_MB_COUNT \<or> isBusy = None \<longrightarrow>
      CAN_IsMbBusy inst mbIdx isBusy s = (STATUS_INVALID_PARAM, isBusy, s)"
    by (simp add: CAN_IsMbBusy_def)
  show "inst \<ge> CAN_INSTANCE_COUNT \<or> errorState = None \<longrightarrow>
      CAN_GetErrorState inst errorState s = (STATUS_INVALID_PARAM, errorState, s)"
    by (simp add: CAN_GetErrorState_def)
  show "inst \<ge> CAN_INSTANCE_COUNT \<or> txErrorCount = None \<or> rxErrorCount = None \<longrightarrow>
      CAN_GetErrorCounters inst txErrorCount rxErrorCount s =
        (STATUS_INVALID_PARAM, txErrorCount, rxErrorCount, s)"
    by (simp add: CAN_GetErrorCounters_def)
  show "base \<noteq> CAN0 \<and> base \<noteq> CAN1 \<and> base \<noteq> CAN2 \<longrightarrow>
      CAN_RegisterCallback base callback s = (STATUS_INVALID_PARAM, s) \<and>
      CAN_UnregisterCallback base s = (STATUS_INVALID_PARAM, s)"
    by (simp add: CAN_RegisterCallback_def CAN_UnregisterCallback_def CAN_GetInstanceIndex_def)
  show "timing = None \<or> baud = 0 \<or> canClockHz = 0 \<longrightarrow>
      CAN_CalculateTiming canClockHz baud timing = Inr (STATUS_INVALID_PARAM, timing)"
    by (simp add: CAN_CalculateTiming_def)
  show "s_canInitialized s inst \<and>
    (mbIdx < CAN_TX_MB_START \<or> mbIdx \<ge> CAN_TX_MB_START + CAN_TX_MB_COUNT) \<longrightarrow>
      CAN_Send inst mbIdx msg s = (STATUS_INVALID_PARAM, s) \<and>
      CAN_SendBlocking hw inst mbIdx msg timeoutMs s = (STATUS_INVALID_PARAM, s) \<and>
      CAN_ConfigTxMailbox inst mbIdx s = (STATUS_INVALID_PARAM, s)"
    by (simp add: CAN_Send_def CAN_SendBlocking_def CAN_ConfigTxMailbox_def)
  show "s_canInitialized s inst \<and> (mbIdx < CAN_RX_MB_START \<or> mbIdx \<ge> CAN_MB_COUNT) \<longrightarrow>
      CAN_Receive inst mbIdx msg s = (STATUS_INVALID_PARAM, msg, s) \<and>
      CAN_ConfigRxFilter inst mbIdx flt s = (STATUS_INVALID_PARAM, s)"
    by (simp add: CAN_Receive_def CAN_ConfigRxFilter_def)
  show "s_canInitialized s inst \<and> dataLength m > CAN_MAX_DATA_LENGTH \<longrightarrow>
      CAN_Send inst mbIdx (Some m) s = (STATUS_INVALID_PARAM, s) \<and>
      CAN_SendBlocking hw inst mbIdx (Some m) timeoutMs s = (STATUS_INVALID_PARAM, s)"
    by (simp add: CAN_Send_def CAN_SendBlocking_def)
  show "inst < CAN_INSTANCE_COUNT \<and> \<not> s_canInitialized s inst \<longrightarrow>
      CAN_Send inst mbIdx (Some m) s = (STATUS_NOT_INITIALIZED, s) \<and>
      CAN_SendBlocking hw inst mbIdx (Some m) timeoutMs s = (STATUS_NOT_INITIALIZED, s) \<and>
      CAN_Receive inst mbIdx (Some m) s = (STATUS_NOT_INITIALIZED, Some m, s) \<and>
      CAN_ReceiveBlocking hw inst mbIdx (Some m) timeoutMs s =
        Inr (STATUS_NOT_INITIALIZED, Some m, s) \<and>
      CAN_ConfigRxFilter inst mbIdx (Some f) s = (STATUS_NOT_INITIALIZED, s) \<and>
      CAN_ConfigTxMailbox inst mbIdx s = (STATUS_NOT_INITIALIZED, s)"
    by (simp add: CAN_Send_def CAN_SendBlocking_def CAN_Receive_def CAN_ReceiveBlocking_def
        CAN_ConfigRxFilter_def CAN_ConfigTxMailbox_def not_le [symmetric])
  show "CAN_Init hw None s = Inr (STATUS_INVALID_PARAM, s)"
    by (simp add: CAN_Init_def)
  show "cfg_instance c \<ge> CAN_INSTANCE_COUNT \<longrightarrow>
      CAN_Init hw (Some c) s = Inr (STATUS_INVALID_PARAM, s)"
    by (simp add: CAN_Init_def)
  show "cfg_instance c < CAN_INSTANCE_COUNT \<and>
    CAN_CalculateTiming (CAN_GetClockFrequency (clockSource c)) (baudRate c)
      (Some timing_local) = Inr (STATUS_INVALID_PARAM, t) \<longrightarrow>
      (\<exists>st s' acc. CAN_Init hw (Some c) s = Inr (st, s') \<and>
         (st = STATUS_ERROR \<or> st = STATUS_INVALID_PARAM) \<and>
         bus s' = bus s @ (s_canBases (cfg_instance c), Read MCR) #
           (s_canBases (cfg_instance c),
            Write MCR (regs s (s_canBases (cfg_instance c)) MCR OR CAN_MCR_MDIS_MASK)) # acc) \<and>
      (\<exists>s'. CAN_Init hw_prompt (Some c) s = Inr (STATUS_INVALID_PARAM, s'))"
    using CAN_Init_rejected [of c t hw s] CAN_Init_prompt_rejected [of c t s] by blast
qed

theorem validation_before_hardware_witness:
  "s_canInitialized state_ready 0 \<and>
   dataLength (msg_example\<lparr>dataLength := 9\<rparr>) > CAN_MAX_DATA_LENGTH \<and>
   CAN_Send 0 8 (Some (msg_example\<lparr>dataLength := 9\<rparr>)) state_ready =
     (STATUS_INVALID_PARAM, state_ready) \<and>
   bus state_ready = [] \<and>
   CAN_RX_MB_START \<le> 16 \<and>
   CAN_Receive 0 8 (Some msg_example) state_ready =
     (STATUS_INVALID_PARAM, Some msg_example, state_ready) \<and>
   CAN_AbortTransmission 0 32 state_ready = (STATUS_INVALID_PARAM, state_ready) \<and>
   CAN_ReceiveBlocking hw_idle 3 16 (Some msg_example) 1 state_ready =
     Inr (STATUS_INVALID_PARAM, Some msg_example, state_ready) \<and>
   CAN_Deinit 3 state_ready = (STATUS_INVALID_PARAM, state_ready) \<and>
   CAN_GetErrorState 0 None state_ready = (STATUS_INVALID_PARAM, None, state_ready) \<and>
   CAN_GetErrorCounters 0 None (Some 0) state_ready =
     (STATUS_INVALID_PARAM, None, Some 0, state_ready) \<and>
   CAN_RegisterCallback 0 (Some 7) state_ready = (STATUS_INVALID_PARAM, state_ready) \<and>
   CAN_UnregisterCallback 0 state_ready = (STATUS_INVALID_PARAM, state_ready) \<and>
   CAN_CalculateTiming 40000000 0 (Some timing_local) =
     Inr (STATUS_INVALID_PARAM, Some timing_local) \<and>
   \<not> s_canInitialized state_start 0 \<and>
   CAN_Send 0 40 (Some msg_example) state_start = (STATUS_NOT_INITIALIZED, state_start) \<and>
   CAN_ReceiveBlocking hw_idle 0 40 (Some msg_example) 1 state_start =
     Inr (STATUS_NOT_INITIALIZED, Some msg_example, state_start) \<and>
   (\<exists>st s' acc. CAN_Init hw_idle (Some config_baud0) state_start = Inr (st, s') \<and>
      (st = STATUS_ERROR \<or> st = STATUS_INVALID_PARAM) \<and>
      bus s' = (CAN0, Read MCR) # (CAN0, Write MCR 0x80000000) # acc) \<and>
   (\<exists>s'. CAN_Init hw_prompt (Some config_baud0) state_start = Inr (STATUS_INVALID_PARAM, s'))"
proof -
  note v1 = validation_before_hardware [where inst = 0 and s = state_ready and mbIdx = 8
      and m = "msg_example\<lparr>dataLength := 9\<rparr>" and msg = "Some msg_example"]
  note v2 = validation_before_hardware [where inst = 0 and s = state_ready and mbIdx = 32]
  note v3 = validation_before_hardware [where inst = 3 and s = state_ready and mbIdx = 16
      and msg = "Some msg_example" and hw = hw_idle and timeoutMs = 1]
  note v4 = validation_before_hardware [where inst = 0 and s = state_ready
      and errorState = None and txErrorCount = None and rxErrorCount = "Some 0"
      and base = 0 and callback = "Some 7" and timing = "Some timing_local" and baud = 0
      and canClockHz = 40000000]
  note v5 = validation_before_hardware [where inst = 0 and s = state_start and mbIdx = 40
      and m = msg_example and hw = hw_idle and timeoutMs = 1]
  note v6 = validation_before_hardware [where c = config_baud0 and hw = hw_idle
      and s = state_start and t = "Some timing_local"]
  have a: "s_canInitialized state_ready 0 \<and>
   dataLength (msg_example\<lparr>dataLength := 9\<rparr>) > CAN_MAX_DATA_LENGTH \<and>
   CAN_Send 0 8 (Some (msg_example\<lparr>dataLength := 9\<rparr>)) state_ready =
     (STATUS_INVALID_PARAM, state_ready) \<and>
   bus state_ready = [] \<and>
   CAN_RX_MB_START \<le> 16 \<and>
   CAN_Receive 0 8 (Some msg_example) state_ready =
     (STATUS_INVALID_PARAM, Some msg_example, state_ready) \<and>
   CAN_AbortTransmission 0 32 state_ready = (STATUS_INVALID_PARAM, state_ready)"
    using v1 v2 by (simp add: state_ready_def can_state_reset_def msg_example_def can_consts)
  have b: "CAN_ReceiveBlocking hw_idle 3 16 (Some msg_example) 1 state_ready =
     Inr (STATUS_INVALID_PARAM, Some msg_example, state_ready) \<and>
   CAN_Deinit 3 state_ready = (STATUS_INVALID_PARAM, state_ready)"
    using v3 by (simp add: can_consts)
  have c: "CAN_GetErrorState 0 None state_ready = (STATUS_INVALID_PARAM, None, state_ready) \<and>
   CAN_GetErrorCounters 0 None (Some 0) state_ready =
     (STATUS_INVALID_PARAM, None, Some 0, state_ready) \<and>
   CAN_RegisterCallback 0 (Some 7) state_ready = (STATUS_INVALID_PARAM, state_ready) \<and>
   CAN_UnregisterCallback 0 state_ready = (STATUS_INVALID_PARAM, state_ready) \<and>
   CAN_CalculateTiming 40000000 0 (Some timing_local) =
     Inr (STATUS_INVALID_PARAM, Some timing_local)"
    using v4 by (simp add: can_consts)
  have d: "\<not> s_canInitialized state_start 0 \<and>
   CAN_Send 0 40 (Some msg_example) state_start = (STATUS_NOT_INITIALIZED, state_start) \<and>
   CAN_ReceiveBlocking hw_idle 0 40 (Some msg_example) 1 state_start =
     Inr (STATUS_NOT_INITIALIZED, Some msg_example, state_start)"
    using v5 by (simp add: state_start_def can_state_reset_def can_consts)
  have e: "(\<exists>st s' acc. CAN_Init hw_idle (Some config_baud0) state_start = Inr (st, s') \<and>
      (st = STATUS_ERROR \<or> st = STATUS_INVALID_PARAM) \<and>
      bus s' = (CAN0, Read MCR) # (CAN0, Write MCR 0x80000000) # acc) \<and>
   (\<exists>s'. CAN_Init hw_prompt (Some config_baud0) state_start = Inr (STATUS_INVALID_PARAM, s'))"
    using v6
    by (simp add: state_start_def can_state_reset_def can_consts config_baud0_def
        config_500k_def s_canBases_def CAN_MCR_MDIS_MASK_def CAN_CalculateTiming_baud0)
  from a b c d e show ?thesis by simp
qed

text \<open>
  C7 as stated fails. On an instance that is not initialised, \<open>CAN_Send\<close> with the
  out-of-range mailbox index 40 returns \<open>STATUS_NOT_INITIALIZED\<close>, not
  \<open>STATUS_INVALID_PARAM\<close>. And \<open>CAN_Init\<close> with a bit rate of 0 returns
  \<open>STATUS_INVALID_PARAM\<close> only after twelve register accesses, the first a read of \<open>MCR\<close>
  followed by the write that sets its module-disable bit.
\<close>

theorem validation_order_counterexample:
  "\<not> s_canInitialized state_start 0 \<and>
   \<not> (CAN_TX_MB_START \<le> 40 \<and> 40 < CAN_TX_MB_START + CAN_TX_MB_COUNT) \<and>
   CAN_Send 0 40 (Some msg_example) state_start = (STATUS_NOT_INITIALIZED, state_start) \<and>
   STATUS_NOT_INITIALIZED \<noteq> STATUS_INVALID_PARAM \<and>
   baudRate config_baud0 = 0 \<and>
   (case CAN_Init hw_prompt (Some config_baud0) state_start of
      Inl f \<Rightarrow> False
    | Inr (st, s) \<Rightarrow> st = STATUS_INVALID_PARAM \<and> length (bus s) = 12 \<and>
        hd (bus s) = (CAN0, Read MCR) \<and> bus s ! 1 = (CAN0, Write MCR 0x80000000))"
proof -
  have a: "\<not> s_canInitialized state_start 0 \<and>
   \<not> (CAN_TX_MB_START \<le> 40 \<and> 40 < CAN_TX_MB_START + CAN_TX_MB_COUNT) \<and>
   CAN_Send 0 40 (Some msg_example) state_start = (STATUS_NOT_INITIALIZED, state_start) \<and>
   STATUS_NOT_INITIALIZED \<noteq> STATUS_INVALID_PARAM \<and>
   baudRate config_baud0 = 0"
    by (simp add: state_start_def can_state_reset_def CAN_Send_def can_consts
        config_baud0_def)
  have b: "(case CAN_Init hw_prompt (Some config_baud0) state_start of
      Inl f \<Rightarrow> False
    | Inr (st, s) \<Rightarrow> st = STATUS_INVALID_PARAM \<and> length (bus s) = 12 \<and>
        hd (bus s) = (CAN0, Read MCR) \<and> bus s ! 1 = (CAN0, Write MCR 0x80000000))"
    by code_simp
  from a b show ?thesis by simp
qed

end
